theory Spec2Isabelle
  imports Main
begin

section \<open>The BigchainDB driver (\<^verbatim>\<open>bigchaindb_driver/driver.py\<close>)\<close>

text \<open>
  The driver module holds the class \<^verbatim>\<open>BigchainDB\<close> (a driver bound to an optional
  key pair and to a transport) and the class \<^verbatim>\<open>TransactionsEndpoint\<close> with the
  operations \<^verbatim>\<open>create\<close>, \<^verbatim>\<open>retrieve\<close>, \<^verbatim>\<open>status\<close>, \<^verbatim>\<open>transfer\<close> and \<^verbatim>\<open>_push\<close>.
  Exceptions are values of a sum type, the driver's attributes are a record, and the
  transport object lives in a store: the driver holds its address, and only
  \<^verbatim>\<open>forward_request\<close> changes what is stored there.
\<close>

subsection \<open>Errors and Python values\<close>

text \<open>
  Modelled from the spec: the module \<^verbatim>\<open>bigchaindb_driver/exceptions.py\<close> is not part of
  the sources at hand. \<^verbatim>\<open>driver.py\<close> imports \<^verbatim>\<open>InvalidVerifyingKey\<close> and
  \<^verbatim>\<open>InvalidSigningKey\<close> from it; the other constructors are the remaining entries of the
  error taxonomy of the specification.
\<close>

datatype error =
    InvalidVerifyingKey
  | InvalidSigningKey
  | MissingSigningKey
  | MissingVerifyingKey
  | InvalidOwnerSet
  | SigningKeyMismatch
  | TransportError string
  | RemoteRejection nat string

text \<open>
  The constructor of the driver tests its key arguments with \<^verbatim>\<open>is not None\<close> and
  \<^verbatim>\<open>isinstance(_, str)\<close>, so its arguments range over Python values of several types.
\<close>

datatype pyval = PyNone | PyStr string | PyInt int | PyBool bool | PyBytes "nat list"

fun isinstance_str :: "pyval \<Rightarrow> bool" where
  "isinstance_str (PyStr s) = True"
| "isinstance_str v = False"

fun str_attr :: "pyval \<Rightarrow> string option" where
  "str_attr (PyStr s) = Some s"
| "str_attr v = None"

text \<open>
  Once bound, and in the documented signatures of the endpoint, a key is \<^verbatim>\<open>None\<close> or a
  \<^verbatim>\<open>str\<close>. Python's truth value of such a value: \<^verbatim>\<open>None\<close> and the empty string are
  false, every other string is true.
\<close>

fun truthy :: "string option \<Rightarrow> bool" where
  "truthy None = False"
| "truthy (Some s) = (s \<noteq> [])"

subsection \<open>Transactions\<close>

text \<open>
  Modelled from the spec: the class \<^verbatim>\<open>Transaction\<close> comes from the package
  \<^verbatim>\<open>bigchaindb_common\<close>, whose source is not at hand. The definitions of this subsection
  follow the data model and the contracts of TransactionBuilder and TransactionSigner
  in the specification. The cryptographic primitives are opaque there; they are the two
  functions of the record \<open>crypto\<close>.
\<close>

datatype operation = CREATE | TRANSFER

type_synonym document = "(string \<times> string) list"

record Input =
  fulfills :: "(string \<times> nat) option"
  owners_before :: "string list"

record Output =
  owners_after :: "string list"

record Transaction =
  operation :: operation
  inputs :: "Input list"
  outputs :: "Output list"
  payload :: "document option"

record SignedTransaction =
  body :: Transaction
  signatures :: "string list list"
  tx_id :: string

record crypto =
  sign_message :: "string \<Rightarrow> Transaction \<Rightarrow> string"
  derive_id :: "Transaction \<Rightarrow> string"

text \<open>
  Modelled from the spec: \<^verbatim>\<open>Transaction.create\<close> of \<^verbatim>\<open>bigchaindb_common\<close>
  (TransactionBuilder, section 4.1).
  \<^verbatim>\<open>create(owners_before, owners_after, payload)\<close>: a CREATE transaction with a single
  input whose authorised keys are \<open>owners_before\<close> and a single output owned by
  \<open>owners_after\<close>; both must be non-empty.
\<close>

definition Transaction_create ::
  "string list \<Rightarrow> string list \<Rightarrow> document option \<Rightarrow> error + Transaction" where
  "Transaction_create owners_before_arg owners_after_arg payload_arg =
     (if owners_before_arg = [] \<or> owners_after_arg = [] then Inl InvalidOwnerSet
      else Inr \<lparr>operation = CREATE,
                inputs = [\<lparr>fulfills = None, owners_before = owners_before_arg\<rparr>],
                outputs = [\<lparr>owners_after = owners_after_arg\<rparr>],
                payload = payload_arg\<rparr>)"

text \<open>
  Modelled from the spec: \<^verbatim>\<open>Transaction.transfer\<close> of \<^verbatim>\<open>bigchaindb_common\<close>
  (TransactionBuilder, section 4.1).
  \<^verbatim>\<open>transfer(inputs, owners_after)\<close>: a TRANSFER transaction consuming the given inputs,
  with one output per supplied owner; \<open>owners_after\<close> may be empty.
\<close>

definition Transaction_transfer :: "Input list \<Rightarrow> string list \<Rightarrow> Transaction" where
  "Transaction_transfer inputs_arg owners_after_arg =
     \<lparr>operation = TRANSFER,
      inputs = inputs_arg,
      outputs = map (\<lambda>k. \<lparr>owners_after = [k]\<rparr>) owners_after_arg,
      payload = None\<rparr>"

text \<open>
  Modelled from the spec: \<^verbatim>\<open>Transaction.to_inputs\<close> of \<^verbatim>\<open>bigchaindb_common\<close>
  (the inputs of the data model, section 3).
  \<^verbatim>\<open>to_inputs()\<close>: one input per output of the prior transaction, referring to that
  output by the transaction's id and the output's position, authorised by its owners.
\<close>

definition to_inputs :: "SignedTransaction \<Rightarrow> Input list" where
  "to_inputs tx =
     map (\<lambda>(i, out). \<lparr>fulfills = Some (tx_id tx, i), owners_before = owners_after out\<rparr>)
         (zip [0 ..< length (outputs (body tx))] (outputs (body tx)))"

text \<open>
  Modelled from the spec: \<^verbatim>\<open>Transaction.sign\<close> of \<^verbatim>\<open>bigchaindb_common\<close>
  (TransactionSigner, section 4.2).
  \<^verbatim>\<open>sign(signing_keys)\<close>: for each input one signature per key, in the order of the
  keys; signing with no key fails. The transaction signed is not changed.
\<close>

definition sign :: "crypto \<Rightarrow> Transaction \<Rightarrow> string list \<Rightarrow> error + SignedTransaction" where
  "sign cr tx signing_keys =
     (if signing_keys = [] then Inl SigningKeyMismatch
      else Inr \<lparr>body = tx,
                signatures = map (\<lambda>i. map (\<lambda>k. sign_message cr k tx) signing_keys) (inputs tx),
                tx_id = derive_id cr tx\<rparr>)"

text \<open>
  Modelled from the spec: \<^verbatim>\<open>Transaction.to_dict\<close> of \<^verbatim>\<open>bigchaindb_common\<close>.
  \<^verbatim>\<open>to_dict()\<close>: the wire form carries the fields of the signed transaction; its
  serialisation is outside the specification, so the wire form is the record itself.
\<close>

type_synonym json = SignedTransaction

definition to_dict :: "SignedTransaction \<Rightarrow> json" where
  "to_dict tx = tx"

subsection \<open>The transport interface and the store\<close>

datatype http_method = GET | POST

type_synonym response = document

type_synonym result = "error + response"

text \<open>
  The driver is given a transport class (\<^verbatim>\<open>transport_class=Transport\<close>) and uses
  three things of it: its constructor, the attribute \<^verbatim>\<open>nodes\<close> and the method
  \<^verbatim>\<open>forward_request(method, path, json)\<close>, which returns the parsed response or raises
  and may change the transport object.
\<close>

record 't transport_class =
  tc_init :: "string list \<Rightarrow> 't"
  tc_nodes :: "'t \<Rightarrow> string list"
  tc_forward_request :: "http_method \<Rightarrow> string \<Rightarrow> json option \<Rightarrow> 't \<Rightarrow> result \<times> 't"

type_synonym ref = nat

record 't heap =
  cells :: "ref \<Rightarrow> 't"
  next_ref :: ref

definition new_object :: "'t \<Rightarrow> 't heap \<Rightarrow> ref \<times> 't heap" where
  "new_object obj h =
     (next_ref h, h\<lparr>cells := (cells h)(next_ref h := obj), next_ref := Suc (next_ref h)\<rparr>)"

subsection \<open>The class \<^verbatim>\<open>BigchainDB\<close>\<close>

record BigchainDB =
  verifying_key :: "string option"
  signing_key :: "string option"
  transport :: ref
  nodes :: "string list"

record 't world =
  driver :: BigchainDB
  heap :: "'t heap"

text \<open>
  \<^verbatim>\<open>__init__(*nodes, verifying_key, signing_key, transport_class)\<close>: the three checks
  in the order of the source, then the four attributes. The transport object is
  allocated in the store, and \<^verbatim>\<open>_nodes\<close> is read from it. A check that raises leaves
  the store as it was: no transport object exists yet.
\<close>

definition BigchainDB_init ::
  "'t transport_class \<Rightarrow> string list \<Rightarrow> pyval \<Rightarrow> pyval \<Rightarrow> 't heap \<Rightarrow>
   (error + BigchainDB) \<times> 't heap" where
  "BigchainDB_init tc nodes_arg verifying_key_arg signing_key_arg h =
     (if verifying_key_arg \<noteq> PyNone \<and> \<not> isinstance_str verifying_key_arg
        then (Inl InvalidVerifyingKey, h)
      else if signing_key_arg \<noteq> PyNone \<and> \<not> isinstance_str signing_key_arg
        then (Inl InvalidSigningKey, h)
      else if signing_key_arg \<noteq> PyNone \<and> verifying_key_arg = PyNone
        then (Inl InvalidVerifyingKey, h)
      else
        (let (r, h') = new_object (tc_init tc nodes_arg) h
         in (Inr \<lparr>verifying_key = str_attr verifying_key_arg,
                  signing_key = str_attr signing_key_arg,
                  transport = r,
                  nodes = tc_nodes tc (cells h' r)\<rparr>, h')))"

subsection \<open>The class \<^verbatim>\<open>TransactionsEndpoint\<close>\<close>

text \<open>
  The endpoint holds the driver and reads \<^verbatim>\<open>transport\<close>, \<^verbatim>\<open>verifying_key\<close> and
  \<^verbatim>\<open>signing_key\<close> through it (the properties of \<^verbatim>\<open>NamespacedDriver\<close>), so its
  operations work on the world of the driver.
\<close>

definition path :: string where
  "path = ''/transactions/''"

text \<open>\<^verbatim>\<open>self.transport.forward_request(...)\<close>: the call on the object the driver points to.\<close>

definition forward_request ::
  "'t transport_class \<Rightarrow> http_method \<Rightarrow> string \<Rightarrow> json option \<Rightarrow> 't world \<Rightarrow> result \<times> 't world" where
  "forward_request tc m p js w =
     (let r = transport (driver w);
          (res, t') = tc_forward_request tc m p js (cells (heap w) r)
      in (res, w\<lparr>heap := (heap w)\<lparr>cells := (cells (heap w))(r := t')\<rparr>\<rparr>))"

definition push :: "'t transport_class \<Rightarrow> json \<Rightarrow> 't world \<Rightarrow> result \<times> 't world" where
  "push tc transaction w = forward_request tc POST path (Some transaction) w"

definition create ::
  "'t transport_class \<Rightarrow> crypto \<Rightarrow> document option \<Rightarrow> string option \<Rightarrow> string option \<Rightarrow>
   't world \<Rightarrow> result \<times> 't world" where
  "create tc cr payload_arg verifying_key_arg signing_key_arg w =
     (let sk = (if truthy signing_key_arg then signing_key_arg else signing_key (driver w))
      in if \<not> truthy sk then (Inl InvalidSigningKey, w)
      else
        let vk = (if truthy verifying_key_arg then verifying_key_arg
                  else verifying_key (driver w))
        in if \<not> truthy vk then (Inl InvalidVerifyingKey, w)
        else
          (case Transaction_create [the vk] [the vk] payload_arg of
             Inl e \<Rightarrow> (Inl e, w)
           | Inr transaction \<Rightarrow>
               (case sign cr transaction [the sk] of
                  Inl e \<Rightarrow> (Inl e, w)
                | Inr signed_transaction \<Rightarrow> push tc (to_dict signed_transaction) w)))"

definition retrieve :: "'t transport_class \<Rightarrow> string \<Rightarrow> 't world \<Rightarrow> result \<times> 't world" where
  "retrieve tc txid w = forward_request tc GET (path @ txid) None w"

definition status :: "'t transport_class \<Rightarrow> string \<Rightarrow> 't world \<Rightarrow> result \<times> 't world" where
  "status tc txid w = forward_request tc GET (path @ txid @ ''/status'') None w"

definition transfer ::
  "'t transport_class \<Rightarrow> crypto \<Rightarrow> SignedTransaction \<Rightarrow> string list \<Rightarrow> string option \<Rightarrow>
   't world \<Rightarrow> result \<times> 't world" where
  "transfer tc cr transaction owners_after_arg signing_key_arg w =
     (let sk = (if truthy signing_key_arg then signing_key_arg else signing_key (driver w))
      in if \<not> truthy sk then (Inl InvalidSigningKey, w)
      else
        let inputs_list = to_inputs transaction;
            transfer_transaction = Transaction_transfer inputs_list owners_after_arg
        in (case sign cr transfer_transaction [the sk] of
              Inl e \<Rightarrow> (Inl e, w)
            | Inr signed_transaction \<Rightarrow> push tc (to_dict signed_transaction) w))"

subsection \<open>The transport\<close>

text \<open>
  Modelled from the spec: the modules \<^verbatim>\<open>bigchaindb_driver/transport.py\<close> and
  \<^verbatim>\<open>bigchaindb_driver/pool.py\<close> are not part of the sources at hand. The definitions of
  this subsection follow the contracts of NodePool and Transport in the specification.
  The HTTP capability is opaque there: it is the function \<open>send\<close>, which is given the
  requests issued so far and the request to issue, and answers with a transport-level
  failure, a parsed body or a structured error. The requests issued are kept with the
  transport object, in order, so that the attempts of a call can be counted.
\<close>

datatype outcome = Unreachable | Success response | ErrorResponse nat string

type_synonym request = "http_method \<times> string \<times> json option"

type_synonym http = "request list \<Rightarrow> request \<Rightarrow> outcome"

record NodePool =
  pool_nodes :: "string list"
  cursor :: nat

definition default_node :: string where
  "default_node = ''http://localhost:9984/api/v1''"

definition NodePool_init :: "string list \<Rightarrow> NodePool" where
  "NodePool_init urls =
     \<lparr>pool_nodes = (if urls = [] then [default_node] else urls), cursor = 0\<rparr>"

text \<open>
  Modelled from the spec: the round-robin picker of \<^verbatim>\<open>pool.py\<close> (NodePool, section 4.3).
  \<^verbatim>\<open>next()\<close>: the node under the cursor; the cursor advances modulo the pool size.
\<close>

definition NodePool_next :: "NodePool \<Rightarrow> string \<times> NodePool" where
  "NodePool_next p =
     (pool_nodes p ! (cursor p mod length (pool_nodes p)),
      p\<lparr>cursor := Suc (cursor p) mod length (pool_nodes p)\<rparr>)"

record Transport =
  pool :: NodePool
  attempt_ceiling :: nat
  wire :: "request list"

definition Transport_init :: "nat \<Rightarrow> string list \<Rightarrow> Transport" where
  "Transport_init ceiling urls =
     \<lparr>pool = NodePool_init urls, attempt_ceiling = ceiling, wire = []\<rparr>"

definition Transport_nodes :: "Transport \<Rightarrow> string list" where
  "Transport_nodes t = pool_nodes (pool t)"

text \<open>
  Modelled from the spec: the algorithm of \<^verbatim>\<open>Transport.forward_request\<close> (section 4.4).
  One attempt: ask the pool for the next node, issue the call to \<open>node @ path\<close>, and
  classify the answer. A structured error is never retried; a transport-level failure
  is retried on the next node while retries are left, and surfaced otherwise.
\<close>

fun attempt ::
  "http \<Rightarrow> nat \<Rightarrow> http_method \<Rightarrow> string \<Rightarrow> json option \<Rightarrow> Transport \<Rightarrow> result \<times> Transport" where
  "attempt send 0 m p js t =
     (let (node, pool') = NodePool_next (pool t);
          req = (m, node @ p, js);
          t' = t\<lparr>pool := pool', wire := wire t @ [req]\<rparr>
      in case send (wire t) req of
           Unreachable \<Rightarrow> (Inl (TransportError node), t')
         | Success b \<Rightarrow> (Inr b, t')
         | ErrorResponse code msg \<Rightarrow> (Inl (RemoteRejection code msg), t'))"
| "attempt send (Suc retries) m p js t =
     (let (node, pool') = NodePool_next (pool t);
          req = (m, node @ p, js);
          t' = t\<lparr>pool := pool', wire := wire t @ [req]\<rparr>
      in case send (wire t) req of
           Unreachable \<Rightarrow> attempt send retries m p js t'
         | Success b \<Rightarrow> (Inr b, t')
         | ErrorResponse code msg \<Rightarrow> (Inl (RemoteRejection code msg), t'))"

text \<open>
  Modelled from the spec: \<^verbatim>\<open>Transport.forward_request\<close> of \<^verbatim>\<open>transport.py\<close>
  (section 4.4).
  \<^verbatim>\<open>forward_request(method, path, body)\<close>: a read (GET) may use up to
  \<open>attempt_ceiling\<close> attempts, a mutating call is attempted once.
\<close>

definition Transport_forward_request ::
  "http \<Rightarrow> http_method \<Rightarrow> string \<Rightarrow> json option \<Rightarrow> Transport \<Rightarrow> result \<times> Transport" where
  "Transport_forward_request send m p js t =
     attempt send (if m = GET then attempt_ceiling t - 1 else 0) m p js t"

definition Transport_class :: "http \<Rightarrow> nat \<Rightarrow> Transport transport_class" where
  "Transport_class send ceiling =
     \<lparr>tc_init = Transport_init ceiling,
      tc_nodes = Transport_nodes,
      tc_forward_request = Transport_forward_request send\<rparr>"

text \<open>
  The number of requests the driver's transport has issued so far, and the body of the
  last of them.
\<close>

definition sent_count :: "Transport world \<Rightarrow> nat" where
  "sent_count w = length (wire (cells (heap w) (transport (driver w))))"

definition last_posted :: "Transport world \<Rightarrow> json option" where
  "last_posted w =
     (case wire (cells (heap w) (transport (driver w))) of
        [] \<Rightarrow> None
      | r # rs \<Rightarrow> snd (snd (last (r # rs))))"

text \<open>
  The transport object of the driver, and the nodes the pool of a transport hands out
  at its next two selections.
\<close>

definition driver_transport :: "'t world \<Rightarrow> 't" where
  "driver_transport w = cells (heap w) (transport (driver w))"

definition first_node :: "Transport \<Rightarrow> string" where
  "first_node t = fst (NodePool_next (pool t))"

definition second_node :: "Transport \<Rightarrow> string" where
  "second_node t = fst (NodePool_next (snd (NodePool_next (pool t))))"

subsection \<open>Key resolution as the specification words it\<close>

text \<open>
  The specification describes the resolution of a key as resolve-with-precedence
  (explicit, bound, fail). \<^verbatim>\<open>create\<close> and \<^verbatim>\<open>transfer\<close> write it as conditionals on the
  truth value of the argument; the function below is the resolver those conditionals
  amount to, with \<open>None\<close> for the failure, and the theorems relate the two.
\<close>

definition resolve_with_precedence :: "string option \<Rightarrow> string option \<Rightarrow> string option" where
  "resolve_with_precedence explicit bound =
     (if truthy explicit then explicit else if truthy bound then bound else None)"

subsection \<open>Sample values\<close>

text \<open>
  A network whose first request meets an unreachable node and whose later requests are
  answered, symbolic cryptography, an empty store, and a driver over two nodes with
  an attempt ceiling of two, with and without a bound key pair.
\<close>

definition sample_send :: http where
  "sample_send history req =
     (if history = [] then Unreachable else Success [(''status'', ''valid'')])"

definition sample_crypto :: crypto where
  "sample_crypto = \<lparr>sign_message = (\<lambda>k tx. ''sig:'' @ k), derive_id = (\<lambda>tx. ''id'')\<rparr>"

definition sample_class :: "Transport transport_class" where
  "sample_class = Transport_class sample_send 2"

definition sample_transport :: Transport where
  "sample_transport = Transport_init 2 [''http://a'', ''http://b'']"

definition sample_heap :: "Transport heap" where
  "sample_heap = \<lparr>cells = (\<lambda>r. sample_transport), next_ref = 0\<rparr>"

definition unbound_world :: "Transport world" where
  "unbound_world =
     \<lparr>driver = \<lparr>verifying_key = None, signing_key = None, transport = 0,
                nodes = [''http://a'', ''http://b'']\<rparr>,
      heap = sample_heap\<lparr>next_ref := 1\<rparr>\<rparr>"

definition bound_world :: "Transport world" where
  "bound_world =
     \<lparr>driver = \<lparr>verifying_key = Some ''VK'', signing_key = Some ''SK'', transport = 0,
                nodes = [''http://a'', ''http://b'']\<rparr>,
      heap = sample_heap\<lparr>next_ref := 1\<rparr>\<rparr>"

definition sample_prior :: SignedTransaction where
  "sample_prior =
     \<lparr>body = \<lparr>operation = CREATE,
              inputs = [\<lparr>fulfills = None, owners_before = [''VK'']\<rparr>],
              outputs = [\<lparr>owners_after = [''VK'']\<rparr>],
              payload = None\<rparr>,
      signatures = [[''sig:SK'']],
      tx_id = ''id''\<rparr>"

section \<open>Properties\<close>

subsection \<open>Auxiliary facts\<close>

lemma truthy_Some_the: "truthy k \<Longrightarrow> \<exists>s. k = Some s \<and> s \<noteq> []"
  by (cases k) auto

lemma resolve_Some: "resolve_with_precedence e b = Some k \<Longrightarrow> k \<noteq> []"
  by (cases e; cases b) (auto simp: resolve_with_precedence_def split: if_splits)

lemma resolve_truthy:
  "truthy (if truthy e then e else b) = (resolve_with_precedence e b \<noteq> None)"
  "truthy (if truthy e then e else b) \<Longrightarrow> resolve_with_precedence e b = (if truthy e then e else b)"
  by (cases e; cases b; auto simp: resolve_with_precedence_def)+

lemma create_unfold:
  "create tc cr p vka ska w =
     (let sk = (if truthy ska then ska else signing_key (driver w));
          vk = (if truthy vka then vka else verifying_key (driver w));
          tx = \<lparr>operation = CREATE,
                inputs = [\<lparr>fulfills = None, owners_before = [the vk]\<rparr>],
                outputs = [\<lparr>owners_after = [the vk]\<rparr>],
                payload = p\<rparr>
      in if \<not> truthy sk then (Inl InvalidSigningKey, w)
         else if \<not> truthy vk then (Inl InvalidVerifyingKey, w)
         else forward_request tc POST ''/transactions/''
                (Some \<lparr>body = tx, signatures = [[sign_message cr (the sk) tx]],
                        tx_id = derive_id cr tx\<rparr>) w)"
  by (simp add: create_def Let_def Transaction_create_def sign_def push_def to_dict_def path_def)

lemma transfer_unfold:
  "transfer tc cr prior oa ska w =
     (let sk = (if truthy ska then ska else signing_key (driver w));
          tx = Transaction_transfer (to_inputs prior) oa
      in if \<not> truthy sk then (Inl InvalidSigningKey, w)
         else forward_request tc POST ''/transactions/''
                (Some \<lparr>body = tx,
                        signatures = map (\<lambda>i. [sign_message cr (the sk) tx]) (inputs tx),
                        tx_id = derive_id cr tx\<rparr>) w)"
  by (simp add: transfer_def Let_def sign_def push_def to_dict_def path_def)

lemma create_by_resolver:
  "create tc cr p vka ska w =
     (case resolve_with_precedence ska (signing_key (driver w)) of
        None \<Rightarrow> (Inl InvalidSigningKey, w)
      | Some sk \<Rightarrow>
          (case resolve_with_precedence vka (verifying_key (driver w)) of
             None \<Rightarrow> (Inl InvalidVerifyingKey, w)
           | Some vk \<Rightarrow>
               (case Transaction_create [vk] [vk] p of
                  Inl e \<Rightarrow> (Inl e, w)
                | Inr tx \<Rightarrow>
                    (case sign cr tx [sk] of
                       Inl e \<Rightarrow> (Inl e, w)
                     | Inr stx \<Rightarrow> push tc (to_dict stx) w))))"
proof (cases "truthy (if truthy ska then ska else signing_key (driver w))")
  case False
  then show ?thesis
    by (simp add: create_def Let_def resolve_truthy(1)[of ska "signing_key (driver w)"])
next
  case sk: True
  show ?thesis
  proof (cases "truthy (if truthy vka then vka else verifying_key (driver w))")
    case False
    with sk show ?thesis
      using resolve_truthy(1)[of ska "signing_key (driver w)"] resolve_truthy(1)[of vka "verifying_key (driver w)"]
      by (auto simp add: create_def Let_def)
  next
    case vk: True
    from resolve_truthy(2)[OF sk] resolve_truthy(2)[OF vk] truthy_Some_the[OF sk] truthy_Some_the[OF vk] sk vk
    show ?thesis
      by (auto simp add: create_def Let_def split: sum.splits)
  qed
qed

lemma transfer_by_resolver:
  "transfer tc cr prior oa ska w =
     (case resolve_with_precedence ska (signing_key (driver w)) of
        None \<Rightarrow> (Inl InvalidSigningKey, w)
      | Some sk \<Rightarrow>
          (case sign cr (Transaction_transfer (to_inputs prior) oa) [sk] of
             Inl e \<Rightarrow> (Inl e, w)
           | Inr stx \<Rightarrow> push tc (to_dict stx) w))"
proof (cases "truthy (if truthy ska then ska else signing_key (driver w))")
  case False
  then show ?thesis
    by (simp add: transfer_def Let_def resolve_truthy(1)[of ska "signing_key (driver w)"])
next
  case sk: True
  from resolve_truthy(2)[OF sk] truthy_Some_the[OF sk] sk
  show ?thesis
    by (auto simp add: transfer_def Let_def split: sum.splits)
qed

lemma driver_forward_request: "driver (snd (forward_request tc m p js w)) = driver w"
  by (simp add: forward_request_def Let_def split_def)

lemma attempt_wire_bounds:
  "length (wire t) < length (wire (snd (attempt send n m p js t))) \<and>
   length (wire (snd (attempt send n m p js t))) \<le> length (wire t) + Suc n"
proof (induction n arbitrary: t)
  case 0
  show ?case by (simp add: Let_def split_def split: outcome.splits)
next
  case (Suc n)
  define t' where "t' = t\<lparr>pool := snd (NodePool_next (pool t)),
     wire := wire t @ [(m, fst (NodePool_next (pool t)) @ p, js)]\<rparr>"
  have w: "length (wire t') = Suc (length (wire t))" by (simp add: t'_def)
  show ?case
    using Suc.IH[of t'] w
    by (simp add: Let_def split_def t'_def split: outcome.splits)
qed




lemma attempt_fail_then_success:
  assumes "send (wire t) (m, first_node t @ p, js) = Unreachable"
      and "send (wire t @ [(m, first_node t @ p, js)]) (m, second_node t @ p, js) = Success b"
  shows "fst (attempt send (Suc n) m p js t) = Inr b \<and>
         wire (snd (attempt send (Suc n) m p js t))
           = wire t @ [(m, first_node t @ p, js), (m, second_node t @ p, js)]"
  using assms
  by (cases n) (simp_all add: first_node_def second_node_def Let_def split_def)

lemma attempt_once:
  "wire (snd (attempt send 0 m p js t)) = wire t @ [(m, first_node t @ p, js)] \<and>
   (send (wire t) (m, first_node t @ p, js) = Unreachable \<longrightarrow>
      fst (attempt send 0 m p js t) = Inl (TransportError (first_node t)))"
  by (simp add: first_node_def Let_def split_def split: outcome.splits)

lemma sent_count_forward_request:
  "sent_count (snd (forward_request (Transport_class send c) m p js w))
     = length (wire (snd (attempt send (if m = GET then attempt_ceiling (driver_transport w) - 1 else 0)
                            m p js (driver_transport w))))"
  by (simp add: sent_count_def forward_request_def Transport_class_def
        Transport_forward_request_def driver_transport_def Let_def split_def)

lemma fst_forward_request:
  "fst (forward_request (Transport_class send c) m p js w)
     = fst (attempt send (if m = GET then attempt_ceiling (driver_transport w) - 1 else 0)
              m p js (driver_transport w))"
  by (simp add: forward_request_def Transport_class_def
        Transport_forward_request_def driver_transport_def Let_def split_def)

lemma sent_count_transport: "sent_count w = length (wire (driver_transport w))"
  by (simp add: sent_count_def driver_transport_def)

lemma post_once:
  "sent_count (snd (forward_request (Transport_class send c) POST p js w)) = Suc (sent_count w)"
  using attempt_once [of send POST p js "driver_transport w"]
  by (simp add: sent_count_forward_request sent_count_transport [of w] del: attempt.simps)

lemma get_bounded:
  "sent_count w < sent_count (snd (forward_request (Transport_class send c) GET p js w)) \<and>
   sent_count (snd (forward_request (Transport_class send c) GET p js w))
     \<le> sent_count w + max 1 (attempt_ceiling (driver_transport w))"
  using attempt_wire_bounds
          [of "driver_transport w" send "attempt_ceiling (driver_transport w) - 1" GET p js]
  by (simp add: sent_count_forward_request sent_count_transport [of w] del: attempt.simps) arith

lemma get_fail_then_success:
  assumes "2 \<le> attempt_ceiling (driver_transport w)"
      and "send (wire (driver_transport w)) (GET, first_node (driver_transport w) @ p, None)
             = Unreachable"
      and "send (wire (driver_transport w) @ [(GET, first_node (driver_transport w) @ p, None)])
             (GET, second_node (driver_transport w) @ p, None) = Success b"
  shows "fst (forward_request (Transport_class send c) GET p None w) = Inr b \<and>
         sent_count (snd (forward_request (Transport_class send c) GET p None w))
           = sent_count w + 2"
proof -
  from assms(1) obtain n where n: "attempt_ceiling (driver_transport w) - Suc 0 = Suc n"
    by (cases "attempt_ceiling (driver_transport w) - Suc 0") auto
  from attempt_fail_then_success [OF assms(2,3), of n] show ?thesis
    by (simp add: fst_forward_request sent_count_forward_request sent_count_transport [of w] n
          del: attempt.simps)
qed

lemma create_resolved:
  assumes "resolve_with_precedence ska (signing_key (driver w)) = Some sk"
      and "resolve_with_precedence vka (verifying_key (driver w)) = Some vk"
  shows "\<exists>tx stx. Transaction_create [vk] [vk] p = Inr tx \<and> sign cr tx [sk] = Inr stx \<and>
           signatures stx = [[sign_message cr sk tx]] \<and>
           create tc cr p vka ska w = forward_request tc POST path (Some (to_dict stx)) w"
proof -
  obtain tx where tx: "Transaction_create [vk] [vk] p = Inr tx"
    by (simp add: Transaction_create_def)
  obtain stx where stx: "sign cr tx [sk] = Inr stx"
    by (simp add: sign_def)
  have "inputs tx = [\<lparr>fulfills = None, owners_before = [vk]\<rparr>]"
    using tx by (auto simp: Transaction_create_def)
  with stx have "signatures stx = [[sign_message cr sk tx]]"
    by (auto simp: sign_def)
  moreover have "create tc cr p vka ska w = forward_request tc POST path (Some (to_dict stx)) w"
    by (simp add: create_by_resolver assms tx stx push_def)
  ultimately show ?thesis
    using tx stx by (intro exI [of _ tx] exI [of _ stx]) simp
qed

lemma transfer_resolved:
  assumes "resolve_with_precedence ska (signing_key (driver w)) = Some sk"
  shows "\<exists>stx. sign cr (Transaction_transfer (to_inputs prior) oa) [sk] = Inr stx \<and>
           signatures stx
             = replicate (length (outputs (body prior)))
                 [sign_message cr sk (Transaction_transfer (to_inputs prior) oa)] \<and>
           transfer tc cr prior oa ska w = forward_request tc POST path (Some (to_dict stx)) w"
proof -
  let ?tx = "Transaction_transfer (to_inputs prior) oa"
  obtain stx where stx: "sign cr ?tx [sk] = Inr stx"
    by (simp add: sign_def)
  have n: "length (inputs ?tx) = length (outputs (body prior))"
    by (simp add: Transaction_transfer_def to_inputs_def)
  have "signatures stx = map (\<lambda>i. [sign_message cr sk ?tx]) (inputs ?tx)"
    using stx by (auto simp: sign_def)
  then have "signatures stx
      = replicate (length (outputs (body prior))) [sign_message cr sk ?tx]"
    by (simp add: map_replicate_const n)
  moreover have "transfer tc cr prior oa ska w
                   = forward_request tc POST path (Some (to_dict stx)) w"
    by (simp add: transfer_by_resolver assms stx push_def)
  ultimately show ?thesis
    using stx by (intro exI [of _ stx]) simp
qed

lemma post_unreachable:
  assumes "send (wire (driver_transport w)) (POST, first_node (driver_transport w) @ p, js)
             = Unreachable"
  shows "fst (forward_request (Transport_class send c) POST p js w)
           = Inl (TransportError (first_node (driver_transport w)))"
  using assms attempt_once [of send POST p js "driver_transport w"]
  by (simp add: fst_forward_request del: attempt.simps)

lemma create_sends_once:
  assumes "resolve_with_precedence ska (signing_key (driver w)) \<noteq> None"
      and "resolve_with_precedence vka (verifying_key (driver w)) \<noteq> None"
  shows "sent_count (snd (create (Transport_class send c) cr p vka ska w)) = Suc (sent_count w)"
    and "(\<forall>js. send (wire (driver_transport w)) (POST, first_node (driver_transport w) @ path, js)
               = Unreachable) \<Longrightarrow>
         fst (create (Transport_class send c) cr p vka ska w)
           = Inl (TransportError (first_node (driver_transport w)))"
proof -
  from assms obtain sk vk where
    "resolve_with_precedence ska (signing_key (driver w)) = Some sk"
    "resolve_with_precedence vka (verifying_key (driver w)) = Some vk"
    by auto
  from create_resolved [OF this, of p cr "Transport_class send c"]
  obtain stx where call: "create (Transport_class send c) cr p vka ska w
      = forward_request (Transport_class send c) POST path (Some (to_dict stx)) w"
    by (elim exE conjE)
  show "sent_count (snd (create (Transport_class send c) cr p vka ska w)) = Suc (sent_count w)"
    by (simp add: call post_once)
  show "fst (create (Transport_class send c) cr p vka ska w)
           = Inl (TransportError (first_node (driver_transport w)))"
    if "\<forall>js. send (wire (driver_transport w)) (POST, first_node (driver_transport w) @ path, js)
               = Unreachable"
    using that by (simp add: call post_unreachable)
qed

lemma transfer_sends_once:
  assumes "resolve_with_precedence ska (signing_key (driver w)) \<noteq> None"
  shows "sent_count (snd (transfer (Transport_class send c) cr prior oa ska w))
           = Suc (sent_count w)"
    and "(\<forall>js. send (wire (driver_transport w)) (POST, first_node (driver_transport w) @ path, js)
               = Unreachable) \<Longrightarrow>
         fst (transfer (Transport_class send c) cr prior oa ska w)
           = Inl (TransportError (first_node (driver_transport w)))"
proof -
  from assms obtain sk where
    "resolve_with_precedence ska (signing_key (driver w)) = Some sk"
    by auto
  from transfer_resolved [OF this, of cr prior oa "Transport_class send c"]
  obtain stx where call: "transfer (Transport_class send c) cr prior oa ska w
      = forward_request (Transport_class send c) POST path (Some (to_dict stx)) w"
    by (elim exE conjE)
  show "sent_count (snd (transfer (Transport_class send c) cr prior oa ska w))
          = Suc (sent_count w)"
    by (simp add: call post_once)
  show "fst (transfer (Transport_class send c) cr prior oa ska w)
           = Inl (TransportError (first_node (driver_transport w)))"
    if "\<forall>js. send (wire (driver_transport w)) (POST, first_node (driver_transport w) @ path, js)
               = Unreachable"
    using that by (simp add: call post_unreachable)
qed

lemma unresolved_sends_nothing:
  "resolve_with_precedence ska (signing_key (driver w)) = None \<or>
   resolve_with_precedence vka (verifying_key (driver w)) = None \<Longrightarrow>
   sent_count (snd (create tc cr p vka ska w)) = sent_count w"
  "resolve_with_precedence ska (signing_key (driver w)) = None \<Longrightarrow>
   sent_count (snd (transfer tc cr prior oa ska w)) = sent_count w"
  by (auto simp: create_by_resolver transfer_by_resolver split: option.splits)

subsection \<open>Keys that do not resolve\<close>

text \<open>
  Claim C1, as the code has it. When the signing key argument is absent or empty and
  no signing key is bound, \<^verbatim>\<open>create\<close> raises \<^verbatim>\<open>InvalidSigningKey\<close>; when a signing
  key resolves and the verifying key argument is absent or empty and no verifying key
  is bound, it raises \<^verbatim>\<open>InvalidVerifyingKey\<close>. In both cases the world is returned as
  it was, whatever the transport class is: \<^verbatim>\<open>forward_request\<close> is not called.
\<close>

theorem create_unresolved_key_raises_before_transport:
  "(\<not> truthy ska \<and> \<not> truthy (signing_key (driver w)) \<longrightarrow>
      create tc cr p vka ska w = (Inl InvalidSigningKey, w)) \<and>
   ((truthy ska \<or> truthy (signing_key (driver w))) \<and>
    \<not> truthy vka \<and> \<not> truthy (verifying_key (driver w)) \<longrightarrow>
      create tc cr p vka ska w = (Inl InvalidVerifyingKey, w))"
proof (intro conjI impI)
  assume "\<not> truthy ska \<and> \<not> truthy (signing_key (driver w))"
  then have "\<not> truthy (if truthy ska then ska else signing_key (driver w))"
    by simp
  then show "create tc cr p vka ska w = (Inl InvalidSigningKey, w)"
    by (simp add: create_def)
next
  assume a: "(truthy ska \<or> truthy (signing_key (driver w))) \<and>
             \<not> truthy vka \<and> \<not> truthy (verifying_key (driver w))"
  then have sk: "truthy (if truthy ska then ska else signing_key (driver w))"
    by auto
  from a have "\<not> truthy (if truthy vka then vka else verifying_key (driver w))"
    by simp
  with sk show "create tc cr p vka ska w = (Inl InvalidVerifyingKey, w)"
    by (simp add: create_def Let_def)
qed

theorem create_unresolved_key_witness:
  "\<not> truthy None \<and> \<not> truthy (signing_key (driver unbound_world)) \<and>
   create sample_class sample_crypto None None None unbound_world
     = (Inl InvalidSigningKey, unbound_world) \<and>
   truthy (Some ''SK'') \<and> \<not> truthy (verifying_key (driver unbound_world)) \<and>
   create sample_class sample_crypto None None (Some ''SK'') unbound_world
     = (Inl InvalidVerifyingKey, unbound_world) \<and>
   sent_count (snd (create sample_class sample_crypto None None (Some ''SK'') unbound_world)) = 0"
  using create_unresolved_key_raises_before_transport
          [where ska = None and vka = None and w = unbound_world and tc = sample_class
             and cr = sample_crypto and p = None]
        create_unresolved_key_raises_before_transport
          [where ska = "Some ''SK''" and vka = None and w = unbound_world and tc = sample_class
             and cr = sample_crypto and p = None]
  by (simp add: unbound_world_def sent_count_def sample_heap_def sample_transport_def
        Transport_init_def)

text \<open>
  The error of \<^verbatim>\<open>create\<close> on a driver without keys, called without keys, is
  \<^verbatim>\<open>InvalidSigningKey\<close>, which is not the \<^verbatim>\<open>MissingSigningKey\<close> of the taxonomy.
\<close>

theorem create_error_is_not_missing_signing_key:
  "fst (create sample_class sample_crypto None None None unbound_world) = Inl InvalidSigningKey \<and>
   fst (create sample_class sample_crypto None None None unbound_world) \<noteq> Inl MissingSigningKey"
  by (simp add: create_unfold Let_def unbound_world_def)

subsection \<open>What \<^verbatim>\<open>create\<close> submits\<close>

text \<open>
  Claim C3. When a signing key \<open>sk\<close> and a verifying key \<open>vk\<close> resolve, \<^verbatim>\<open>create\<close>
  builds the CREATE transaction whose single input is authorised by \<open>[vk]\<close> and whose
  single output is owned by \<open>[vk]\<close>, signs it with the key list \<open>[sk]\<close>, and hands the
  signed transaction to \<^verbatim>\<open>forward_request\<close> with the method POST and the path
  \<^verbatim>\<open>/transactions/\<close>.
\<close>

theorem create_builds_signs_and_posts:
  assumes sk: "resolve_with_precedence ska (signing_key (driver w)) = Some sk"
      and vk: "resolve_with_precedence vka (verifying_key (driver w)) = Some vk"
  shows "\<exists>tx stx.
           Transaction_create [vk] [vk] p = Inr tx \<and>
           sign cr tx [sk] = Inr stx \<and>
           create tc cr p vka ska w
             = forward_request tc POST ''/transactions/'' (Some (to_dict stx)) w \<and>
           operation tx = CREATE \<and>
           map owners_before (inputs tx) = [[vk]] \<and>
           map owners_after (outputs tx) = [[vk]] \<and>
           payload tx = p \<and>
           body (to_dict stx) = tx \<and>
           signatures (to_dict stx) = [[sign_message cr sk tx]]"
proof -
  obtain tx where tx: "Transaction_create [vk] [vk] p = Inr tx"
    by (simp add: Transaction_create_def)
  obtain stx where stx: "sign cr tx [sk] = Inr stx"
    by (simp add: sign_def)
  have call: "create tc cr p vka ska w
                = forward_request tc POST ''/transactions/'' (Some (to_dict stx)) w"
    by (simp add: create_by_resolver sk vk tx stx push_def path_def)
  have shape: "operation tx = CREATE \<and> map owners_before (inputs tx) = [[vk]] \<and>
               map owners_after (outputs tx) = [[vk]] \<and> payload tx = p"
    using tx by (auto simp: Transaction_create_def)
  have one_input: "length (inputs tx) = 1"
    using tx by (auto simp: Transaction_create_def)
  have signed: "body (to_dict stx) = tx \<and> signatures (to_dict stx) = [[sign_message cr sk tx]]"
    using stx one_input by (cases "inputs tx") (auto simp: sign_def to_dict_def)
  from tx stx call shape signed show ?thesis
    by (intro exI [of _ tx] exI [of _ stx]) simp
qed

theorem create_builds_signs_and_posts_witness:
  "resolve_with_precedence None (signing_key (driver bound_world)) = Some ''SK'' \<and>
   resolve_with_precedence (Some ''OTHER'') (verifying_key (driver bound_world)) = Some ''OTHER'' \<and>
   map_option (map owners_before \<circ> inputs \<circ> body)
     (last_posted (snd (create sample_class sample_crypto None (Some ''OTHER'') None bound_world)))
     = Some [[''OTHER'']] \<and>
   map_option signatures
     (last_posted (snd (create sample_class sample_crypto None (Some ''OTHER'') None bound_world)))
     = Some [[''sig:SK'']]"
proof -
  have sk: "resolve_with_precedence None (signing_key (driver bound_world)) = Some ''SK''"
    by (simp add: resolve_with_precedence_def bound_world_def)
  have vk: "resolve_with_precedence (Some ''OTHER'') (verifying_key (driver bound_world))
              = Some ''OTHER''"
    by (simp add: resolve_with_precedence_def)
  from create_builds_signs_and_posts [OF sk vk, of None sample_crypto sample_class]
  obtain tx stx where
    call: "create sample_class sample_crypto None (Some ''OTHER'') None bound_world
             = forward_request sample_class POST ''/transactions/'' (Some (to_dict stx)) bound_world"
    and ob: "map owners_before (inputs tx) = [[''OTHER'']]"
    and b: "body (to_dict stx) = tx"
    and sg: "signatures (to_dict stx) = [[sign_message sample_crypto ''SK'' tx]]"
    by (elim exE conjE)
  have posted: "last_posted (snd (forward_request sample_class POST ''/transactions/''
                   (Some (to_dict stx)) bound_world)) = Some (to_dict stx)"
    by (simp add: forward_request_def sample_class_def Transport_class_def
          Transport_forward_request_def bound_world_def sample_heap_def sample_transport_def
          Transport_init_def NodePool_init_def NodePool_next_def last_posted_def Let_def
          split: outcome.splits)
  have sg': "signatures (to_dict stx) = [[''sig:SK'']]"
    using sg by (simp add: sample_crypto_def)
  show ?thesis
    using sk vk ob b sg' by (simp add: call posted)
qed

subsection \<open>A transfer to no owner\<close>

text \<open>
  Claim C4. When a signing key resolves, \<^verbatim>\<open>transfer\<close> with an empty sequence of new
  owners does not raise while building and signing: the TRANSFER transaction is built,
  it has no output, it is signed, and it is pushed.
\<close>

theorem transfer_to_no_owner_builds_and_signs:
  assumes sk: "resolve_with_precedence ska (signing_key (driver w)) = Some sk"
  shows "\<exists>stx.
           sign cr (Transaction_transfer (to_inputs prior) []) [sk] = Inr stx \<and>
           transfer tc cr prior [] ska w = push tc (to_dict stx) w \<and>
           operation (body stx) = TRANSFER \<and>
           outputs (body stx) = [] \<and>
           length (outputs (body (to_dict stx))) = 0"
proof -
  let ?tx = "Transaction_transfer (to_inputs prior) []"
  obtain stx where stx: "sign cr ?tx [sk] = Inr stx"
    by (simp add: sign_def)
  then have b: "body stx = ?tx"
    by (auto simp: sign_def)
  have call: "transfer tc cr prior [] ska w = push tc (to_dict stx) w"
    by (simp add: transfer_by_resolver sk stx)
  have "operation ?tx = TRANSFER" and "outputs ?tx = []"
    by (simp_all add: Transaction_transfer_def)
  with stx b call show ?thesis
    by (intro exI [of _ stx]) (simp add: to_dict_def)
qed

theorem transfer_to_no_owner_witness:
  "resolve_with_precedence None (signing_key (driver bound_world)) = Some ''SK'' \<and>
   map_option (outputs \<circ> body)
     (last_posted (snd (transfer sample_class sample_crypto sample_prior [] None bound_world)))
     = Some [] \<and>
   map_option (operation \<circ> body)
     (last_posted (snd (transfer sample_class sample_crypto sample_prior [] None bound_world)))
     = Some TRANSFER"
proof -
  have sk: "resolve_with_precedence None (signing_key (driver bound_world)) = Some ''SK''"
    by (simp add: resolve_with_precedence_def bound_world_def)
  from transfer_to_no_owner_builds_and_signs [OF sk, of sample_crypto sample_prior sample_class]
  obtain stx where
    call: "transfer sample_class sample_crypto sample_prior [] None bound_world
             = push sample_class (to_dict stx) bound_world"
    and op: "operation (body stx) = TRANSFER"
    and out: "outputs (body stx) = []"
    by (elim exE conjE)
  have posted: "last_posted (snd (push sample_class (to_dict stx) bound_world)) = Some stx"
    by (simp add: push_def forward_request_def sample_class_def Transport_class_def
          Transport_forward_request_def bound_world_def sample_heap_def sample_transport_def
          Transport_init_def NodePool_init_def NodePool_next_def last_posted_def Let_def
          to_dict_def split: outcome.splits)
  show ?thesis
    using sk op out by (simp add: call posted)
qed

subsection \<open>Precedence of the keys\<close>

text \<open>
  Claim C6, as the code has it. A key resolves to the per-call argument when that
  argument is a non-empty string, to the key bound on the driver when the argument is
  \<^verbatim>\<open>None\<close> or empty and the bound key is a non-empty string, and fails otherwise;
  \<^verbatim>\<open>create\<close> and \<^verbatim>\<open>transfer\<close> are the operations written with that resolver:
  resolve the signing key (and, for \<^verbatim>\<open>create\<close>, the verifying key), fail when one does
  not resolve, build, sign and push otherwise.
\<close>

theorem keys_resolve_explicit_then_bound:
  "(truthy e \<longrightarrow> resolve_with_precedence e b = e) \<and>
   (\<not> truthy e \<and> truthy b \<longrightarrow> resolve_with_precedence e b = b) \<and>
   (\<not> truthy e \<and> \<not> truthy b \<longrightarrow> resolve_with_precedence e b = None) \<and>
   create tc cr p vka ska w =
     (case resolve_with_precedence ska (signing_key (driver w)) of
        None \<Rightarrow> (Inl InvalidSigningKey, w)
      | Some sk \<Rightarrow>
          (case resolve_with_precedence vka (verifying_key (driver w)) of
             None \<Rightarrow> (Inl InvalidVerifyingKey, w)
           | Some vk \<Rightarrow>
               (case Transaction_create [vk] [vk] p of
                  Inl err \<Rightarrow> (Inl err, w)
                | Inr tx \<Rightarrow>
                    (case sign cr tx [sk] of
                       Inl err \<Rightarrow> (Inl err, w)
                     | Inr stx \<Rightarrow> push tc (to_dict stx) w)))) \<and>
   transfer tc cr prior oa ska w =
     (case resolve_with_precedence ska (signing_key (driver w)) of
        None \<Rightarrow> (Inl InvalidSigningKey, w)
      | Some sk \<Rightarrow>
          (case sign cr (Transaction_transfer (to_inputs prior) oa) [sk] of
             Inl err \<Rightarrow> (Inl err, w)
           | Inr stx \<Rightarrow> push tc (to_dict stx) w))"
proof (intro conjI)
  show "truthy e \<longrightarrow> resolve_with_precedence e b = e"
    by (simp add: resolve_with_precedence_def)
  show "\<not> truthy e \<and> truthy b \<longrightarrow> resolve_with_precedence e b = b"
    by (simp add: resolve_with_precedence_def)
  show "\<not> truthy e \<and> \<not> truthy b \<longrightarrow> resolve_with_precedence e b = None"
    by (simp add: resolve_with_precedence_def)
qed (rule create_by_resolver, rule transfer_by_resolver)

theorem keys_resolve_witness:
  "truthy (Some ''K'') \<and> resolve_with_precedence (Some ''K'') (Some ''SK'') = Some ''K'' \<and>
   \<not> truthy (Some '''') \<and> truthy (Some ''SK'') \<and>
   resolve_with_precedence (Some '''') (Some ''SK'') = Some ''SK'' \<and>
   \<not> truthy None \<and> resolve_with_precedence None None = None \<and>
   map_option signatures
     (last_posted (snd (create sample_class sample_crypto None None (Some ''K'') bound_world)))
     = Some [[''sig:K'']] \<and>
   map_option signatures
     (last_posted (snd (transfer sample_class sample_crypto sample_prior [''X''] None bound_world)))
     = Some [[''sig:SK'']]"
proof -
  have r: "resolve_with_precedence (Some ''K'') (Some ''SK'') = Some ''K''"
          "resolve_with_precedence (Some '''') (Some ''SK'') = Some ''SK''"
          "resolve_with_precedence None None = None"
    using keys_resolve_explicit_then_bound
            [where e = "Some ''K''" and b = "Some ''SK''", THEN conjunct1]
          keys_resolve_explicit_then_bound
            [where e = "Some []" and b = "Some ''SK''", THEN conjunct2, THEN conjunct1]
          keys_resolve_explicit_then_bound
            [where e = None and b = None, THEN conjunct2, THEN conjunct2, THEN conjunct1]
    by simp_all
  have c: "create sample_class sample_crypto None None (Some ''K'') bound_world
             = push sample_class
                 \<lparr>body = \<lparr>operation = CREATE,
                           inputs = [\<lparr>fulfills = None, owners_before = [''VK'']\<rparr>],
                           outputs = [\<lparr>owners_after = [''VK'']\<rparr>], payload = None\<rparr>,
                  signatures = [[''sig:K'']], tx_id = ''id''\<rparr> bound_world"
    using keys_resolve_explicit_then_bound
            [where tc = sample_class and cr = sample_crypto and p = None and vka = None
               and ska = "Some ''K''" and w = bound_world,
             THEN conjunct2, THEN conjunct2, THEN conjunct2, THEN conjunct1]
    by (simp add: resolve_with_precedence_def bound_world_def Transaction_create_def sign_def
          to_dict_def sample_crypto_def)
  have t: "transfer sample_class sample_crypto sample_prior [''X''] None bound_world
             = push sample_class
                 \<lparr>body = \<lparr>operation = TRANSFER,
                           inputs = [\<lparr>fulfills = Some (''id'', 0), owners_before = [''VK'']\<rparr>],
                           outputs = [\<lparr>owners_after = [''X'']\<rparr>], payload = None\<rparr>,
                  signatures = [[''sig:SK'']], tx_id = ''id''\<rparr> bound_world"
    using keys_resolve_explicit_then_bound
            [where tc = sample_class and cr = sample_crypto and prior = sample_prior
               and oa = "[''X'']" and ska = None and w = bound_world,
             THEN conjunct2, THEN conjunct2, THEN conjunct2, THEN conjunct2]
    by (simp add: resolve_with_precedence_def bound_world_def Transaction_transfer_def sign_def
          to_dict_def sample_crypto_def to_inputs_def sample_prior_def)
  have posted: "\<And>stx. last_posted (snd (push sample_class stx bound_world)) = Some stx"
    by (simp add: push_def forward_request_def sample_class_def Transport_class_def
          Transport_forward_request_def bound_world_def sample_heap_def sample_transport_def
          Transport_init_def NodePool_init_def NodePool_next_def last_posted_def Let_def
          split: outcome.splits)
  show ?thesis
    using r by (simp add: c t posted)
qed

text \<open>
  An empty string given as the signing key does not take precedence: on a driver bound
  to the key \<^verbatim>\<open>SK\<close>, \<^verbatim>\<open>create(signing_key='')\<close> posts a transaction signed with
  \<^verbatim>\<open>SK\<close>, not with the empty key.
\<close>

theorem empty_key_argument_yields_to_bound_key:
  "map_option signatures
     (last_posted (snd (create sample_class sample_crypto None None (Some '''') bound_world)))
     = Some [[''sig:SK'']] \<and>
   map_option signatures
     (last_posted (snd (create sample_class sample_crypto None None (Some '''') bound_world)))
     \<noteq> Some [[''sig:'']]"
proof -
  have c: "create sample_class sample_crypto None None (Some '''') bound_world
             = push sample_class
                 \<lparr>body = \<lparr>operation = CREATE,
                           inputs = [\<lparr>fulfills = None, owners_before = [''VK'']\<rparr>],
                           outputs = [\<lparr>owners_after = [''VK'']\<rparr>], payload = None\<rparr>,
                  signatures = [[''sig:SK'']], tx_id = ''id''\<rparr> bound_world"
    by (simp add: create_def Let_def bound_world_def Transaction_create_def sign_def
          to_dict_def sample_crypto_def)
  have posted: "\<And>stx. last_posted (snd (push sample_class stx bound_world)) = Some stx"
    by (simp add: push_def forward_request_def sample_class_def Transport_class_def
          Transport_forward_request_def bound_world_def sample_heap_def sample_transport_def
          Transport_init_def NodePool_init_def NodePool_next_def last_posted_def Let_def
          split: outcome.splits)
  show ?thesis
    by (simp add: c posted)
qed

subsection \<open>Empty key arguments\<close>

text \<open>
  Claim C9. A key argument that is false in Python's sense (\<^verbatim>\<open>None\<close> or the empty
  string) is the same to \<^verbatim>\<open>create\<close> and \<^verbatim>\<open>transfer\<close> as no argument: the call
  equals the call with \<^verbatim>\<open>None\<close>, so the bound key is used. When the bound key is
  absent or empty too, the call raises the key error and leaves the world as it was.
  Whenever a call gets as far as pushing, the keys it built and signed with are
  non-empty strings. With a false signing key argument and a non-empty bound signing
  key, what \<^verbatim>\<open>transfer\<close> and \<^verbatim>\<open>create\<close> push is signed with the bound key, one
  signature per input; with a false verifying key argument and a non-empty bound
  verifying key, the CREATE transaction pushed is owned before and after by the bound
  key.
\<close>

theorem falsy_key_argument_counts_as_absent:
  "(\<not> truthy ska \<longrightarrow>
      create tc cr p vka ska w = create tc cr p vka None w \<and>
      transfer tc cr prior oa ska w = transfer tc cr prior oa None w) \<and>
   (\<not> truthy vka \<longrightarrow> create tc cr p vka ska w = create tc cr p None ska w) \<and>
   (\<not> truthy ska \<and> \<not> truthy (signing_key (driver w)) \<longrightarrow>
      create tc cr p vka ska w = (Inl InvalidSigningKey, w) \<and>
      transfer tc cr prior oa ska w = (Inl InvalidSigningKey, w)) \<and>
   (\<not> truthy vka \<and> \<not> truthy (verifying_key (driver w)) \<longrightarrow>
      fst (create tc cr p vka ska w) \<in> {Inl InvalidSigningKey, Inl InvalidVerifyingKey} \<and>
      snd (create tc cr p vka ska w) = w) \<and>
   (create tc cr p vka ska w = (Inl InvalidSigningKey, w) \<or>
    create tc cr p vka ska w = (Inl InvalidVerifyingKey, w) \<or>
    (\<exists>vk sk tx stx. vk \<noteq> [] \<and> sk \<noteq> [] \<and>
       Transaction_create [vk] [vk] p = Inr tx \<and> sign cr tx [sk] = Inr stx \<and>
       create tc cr p vka ska w = push tc (to_dict stx) w)) \<and>
   (transfer tc cr prior oa ska w = (Inl InvalidSigningKey, w) \<or>
    (\<exists>sk stx. sk \<noteq> [] \<and>
       sign cr (Transaction_transfer (to_inputs prior) oa) [sk] = Inr stx \<and>
       transfer tc cr prior oa ska w = push tc (to_dict stx) w)) \<and>
   (\<not> truthy ska \<and> signing_key (driver w) = Some bsk \<and> bsk \<noteq> [] \<longrightarrow>
      (\<exists>stx.
         sign cr (Transaction_transfer (to_inputs prior) oa) [bsk] = Inr stx \<and>
         signatures stx
           = replicate (length (outputs (body prior)))
               [sign_message cr bsk (Transaction_transfer (to_inputs prior) oa)] \<and>
         transfer tc cr prior oa ska w = push tc (to_dict stx) w)) \<and>
   (\<not> truthy ska \<and> signing_key (driver w) = Some bsk \<and> bsk \<noteq> [] \<and>
    resolve_with_precedence vka (verifying_key (driver w)) = Some vk \<longrightarrow>
      (\<exists>tx stx.
         Transaction_create [vk] [vk] p = Inr tx \<and> sign cr tx [bsk] = Inr stx \<and>
         signatures stx = [[sign_message cr bsk tx]] \<and>
         create tc cr p vka ska w = push tc (to_dict stx) w)) \<and>
   (\<not> truthy vka \<and> verifying_key (driver w) = Some bvk \<and> bvk \<noteq> [] \<and>
    resolve_with_precedence ska (signing_key (driver w)) = Some sk \<longrightarrow>
      (\<exists>tx stx.
         Transaction_create [bvk] [bvk] p = Inr tx \<and>
         map owners_before (inputs tx) = [[bvk]] \<and>
         map owners_after (outputs tx) = [[bvk]] \<and>
         sign cr tx [sk] = Inr stx \<and> body stx = tx \<and>
         create tc cr p vka ska w = push tc (to_dict stx) w))"
proof (intro conjI)
  show "\<not> truthy ska \<and> signing_key (driver w) = Some bsk \<and> bsk \<noteq> [] \<longrightarrow>
      (\<exists>stx.
         sign cr (Transaction_transfer (to_inputs prior) oa) [bsk] = Inr stx \<and>
         signatures stx
           = replicate (length (outputs (body prior)))
               [sign_message cr bsk (Transaction_transfer (to_inputs prior) oa)] \<and>
         transfer tc cr prior oa ska w = push tc (to_dict stx) w)"
  proof
    assume a: "\<not> truthy ska \<and> signing_key (driver w) = Some bsk \<and> bsk \<noteq> []"
    then have "resolve_with_precedence ska (signing_key (driver w)) = Some bsk"
      by (simp add: resolve_with_precedence_def)
    from transfer_resolved [OF this, of cr prior oa tc] show
      "\<exists>stx.
         sign cr (Transaction_transfer (to_inputs prior) oa) [bsk] = Inr stx \<and>
         signatures stx
           = replicate (length (outputs (body prior)))
               [sign_message cr bsk (Transaction_transfer (to_inputs prior) oa)] \<and>
         transfer tc cr prior oa ska w = push tc (to_dict stx) w"
      by (simp add: push_def)
  qed
  show "\<not> truthy ska \<and> signing_key (driver w) = Some bsk \<and> bsk \<noteq> [] \<and>
    resolve_with_precedence vka (verifying_key (driver w)) = Some vk \<longrightarrow>
      (\<exists>tx stx.
         Transaction_create [vk] [vk] p = Inr tx \<and> sign cr tx [bsk] = Inr stx \<and>
         signatures stx = [[sign_message cr bsk tx]] \<and>
         create tc cr p vka ska w = push tc (to_dict stx) w)"
  proof
    assume a: "\<not> truthy ska \<and> signing_key (driver w) = Some bsk \<and> bsk \<noteq> [] \<and>
      resolve_with_precedence vka (verifying_key (driver w)) = Some vk"
    then have sk: "resolve_with_precedence ska (signing_key (driver w)) = Some bsk"
      by (simp add: resolve_with_precedence_def)
    from a have vk: "resolve_with_precedence vka (verifying_key (driver w)) = Some vk"
      by simp
    from create_resolved [OF sk vk, of p cr tc] show
      "\<exists>tx stx.
         Transaction_create [vk] [vk] p = Inr tx \<and> sign cr tx [bsk] = Inr stx \<and>
         signatures stx = [[sign_message cr bsk tx]] \<and>
         create tc cr p vka ska w = push tc (to_dict stx) w"
      by (simp add: push_def)
  qed
  show "\<not> truthy vka \<and> verifying_key (driver w) = Some bvk \<and> bvk \<noteq> [] \<and>
    resolve_with_precedence ska (signing_key (driver w)) = Some sk \<longrightarrow>
      (\<exists>tx stx.
         Transaction_create [bvk] [bvk] p = Inr tx \<and>
         map owners_before (inputs tx) = [[bvk]] \<and>
         map owners_after (outputs tx) = [[bvk]] \<and>
         sign cr tx [sk] = Inr stx \<and> body stx = tx \<and>
         create tc cr p vka ska w = push tc (to_dict stx) w)"
  proof
    assume a: "\<not> truthy vka \<and> verifying_key (driver w) = Some bvk \<and> bvk \<noteq> [] \<and>
      resolve_with_precedence ska (signing_key (driver w)) = Some sk"
    then have vk: "resolve_with_precedence vka (verifying_key (driver w)) = Some bvk"
      by (simp add: resolve_with_precedence_def)
    from a have sk: "resolve_with_precedence ska (signing_key (driver w)) = Some sk"
      by simp
    from create_resolved [OF sk vk, of p cr tc] obtain tx stx where
      tx: "Transaction_create [bvk] [bvk] p = Inr tx" and stx: "sign cr tx [sk] = Inr stx"
      and call: "create tc cr p vka ska w = forward_request tc POST path (Some (to_dict stx)) w"
      by (elim exE conjE)
    have owners: "map owners_before (inputs tx) = [[bvk]] \<and>
                  map owners_after (outputs tx) = [[bvk]]"
      using tx by (auto simp: Transaction_create_def)
    have "body stx = tx"
      using stx by (auto simp: sign_def)
    with tx stx call owners show
      "\<exists>tx stx.
         Transaction_create [bvk] [bvk] p = Inr tx \<and>
         map owners_before (inputs tx) = [[bvk]] \<and>
         map owners_after (outputs tx) = [[bvk]] \<and>
         sign cr tx [sk] = Inr stx \<and> body stx = tx \<and>
         create tc cr p vka ska w = push tc (to_dict stx) w"
      by (intro exI [of _ tx] exI [of _ stx]) (simp add: push_def)
  qed
  show "\<not> truthy ska \<longrightarrow>
      create tc cr p vka ska w = create tc cr p vka None w \<and>
      transfer tc cr prior oa ska w = transfer tc cr prior oa None w"
    by (simp add: create_def transfer_def)
  show "\<not> truthy vka \<longrightarrow> create tc cr p vka ska w = create tc cr p None ska w"
    by (simp add: create_def)
  show "\<not> truthy ska \<and> \<not> truthy (signing_key (driver w)) \<longrightarrow>
      create tc cr p vka ska w = (Inl InvalidSigningKey, w) \<and>
      transfer tc cr prior oa ska w = (Inl InvalidSigningKey, w)"
    by (simp add: create_def transfer_def)
  show "\<not> truthy vka \<and> \<not> truthy (verifying_key (driver w)) \<longrightarrow>
      fst (create tc cr p vka ska w) \<in> {Inl InvalidSigningKey, Inl InvalidVerifyingKey} \<and>
      snd (create tc cr p vka ska w) = w"
    by (simp add: create_def Let_def)
  show "create tc cr p vka ska w = (Inl InvalidSigningKey, w) \<or>
    create tc cr p vka ska w = (Inl InvalidVerifyingKey, w) \<or>
    (\<exists>vk sk tx stx. vk \<noteq> [] \<and> sk \<noteq> [] \<and>
       Transaction_create [vk] [vk] p = Inr tx \<and> sign cr tx [sk] = Inr stx \<and>
       create tc cr p vka ska w = push tc (to_dict stx) w)"
  proof (cases "resolve_with_precedence ska (signing_key (driver w))")
    case None
    then show ?thesis by (simp add: create_by_resolver)
  next
    case (Some sk)
    note sk = this
    show ?thesis
    proof (cases "resolve_with_precedence vka (verifying_key (driver w))")
      case None
      with sk show ?thesis by (simp add: create_by_resolver)
    next
      case (Some vk)
      obtain tx where tx: "Transaction_create [vk] [vk] p = Inr tx"
        by (simp add: Transaction_create_def)
      obtain stx where stx: "sign cr tx [sk] = Inr stx"
        by (simp add: sign_def)
      have "create tc cr p vka ska w = push tc (to_dict stx) w"
        by (simp add: create_by_resolver sk Some tx stx)
      moreover have "vk \<noteq> []" "sk \<noteq> []"
        using resolve_Some [OF Some] resolve_Some [OF sk] by simp_all
      ultimately show ?thesis
        using tx stx by blast
    qed
  qed
  show "transfer tc cr prior oa ska w = (Inl InvalidSigningKey, w) \<or>
    (\<exists>sk stx. sk \<noteq> [] \<and>
       sign cr (Transaction_transfer (to_inputs prior) oa) [sk] = Inr stx \<and>
       transfer tc cr prior oa ska w = push tc (to_dict stx) w)"
  proof (cases "resolve_with_precedence ska (signing_key (driver w))")
    case None
    then show ?thesis by (simp add: transfer_by_resolver)
  next
    case (Some sk)
    obtain stx where stx: "sign cr (Transaction_transfer (to_inputs prior) oa) [sk] = Inr stx"
      by (simp add: sign_def)
    have "transfer tc cr prior oa ska w = push tc (to_dict stx) w"
      by (simp add: transfer_by_resolver Some stx)
    with stx resolve_Some [OF Some] show ?thesis by blast
  qed
qed

theorem falsy_key_argument_witness:
  "\<not> truthy (Some '''') \<and>
   create sample_class sample_crypto None None (Some '''') bound_world
     = create sample_class sample_crypto None None None bound_world \<and>
   transfer sample_class sample_crypto sample_prior [''X''] (Some '''') bound_world
     = transfer sample_class sample_crypto sample_prior [''X''] None bound_world \<and>
   create sample_class sample_crypto None (Some '''') None bound_world
     = create sample_class sample_crypto None None None bound_world \<and>
   \<not> truthy (signing_key (driver unbound_world)) \<and>
   create sample_class sample_crypto None None (Some '''') unbound_world
     = (Inl InvalidSigningKey, unbound_world) \<and>
   transfer sample_class sample_crypto sample_prior [''X''] (Some '''') unbound_world
     = (Inl InvalidSigningKey, unbound_world) \<and>
   \<not> truthy (verifying_key (driver unbound_world)) \<and>
   create sample_class sample_crypto None (Some '''') (Some ''K'') unbound_world
     = (Inl InvalidVerifyingKey, unbound_world) \<and>
   signing_key (driver bound_world) = Some ''SK'' \<and>
   verifying_key (driver bound_world) = Some ''VK'' \<and>
   map_option signatures
     (last_posted (snd (create sample_class sample_crypto None (Some '''') (Some '''')
                          bound_world))) = Some [[''sig:SK'']] \<and>
   map_option (map owners_before \<circ> inputs \<circ> body)
     (last_posted (snd (create sample_class sample_crypto None (Some '''') (Some '''')
                          bound_world))) = Some [[''VK'']] \<and>
   map_option (map owners_after \<circ> outputs \<circ> body)
     (last_posted (snd (create sample_class sample_crypto None (Some '''') (Some '''')
                          bound_world))) = Some [[''VK'']] \<and>
   map_option signatures
     (last_posted (snd (transfer sample_class sample_crypto sample_prior [''X''] (Some '''')
                          bound_world))) = Some [[''sig:SK'']]"
proof -
  note c9 = falsy_key_argument_counts_as_absent
  have a: "create sample_class sample_crypto None None (Some '''') bound_world
             = create sample_class sample_crypto None None None bound_world \<and>
           transfer sample_class sample_crypto sample_prior [''X''] (Some '''') bound_world
             = transfer sample_class sample_crypto sample_prior [''X''] None bound_world"
    using c9 [where ska = "Some []" and w = bound_world, THEN conjunct1] by simp
  have b: "create sample_class sample_crypto None (Some '''') None bound_world
             = create sample_class sample_crypto None None None bound_world"
    using c9 [where vka = "Some []", THEN conjunct2, THEN conjunct1] by simp
  have c: "create sample_class sample_crypto None None (Some '''') unbound_world
             = (Inl InvalidSigningKey, unbound_world) \<and>
           transfer sample_class sample_crypto sample_prior [''X''] (Some '''') unbound_world
             = (Inl InvalidSigningKey, unbound_world)"
    using c9 [where ska = "Some []" and w = unbound_world,
              THEN conjunct2, THEN conjunct2, THEN conjunct1]
    by (simp add: unbound_world_def)
  have d: "fst (create sample_class sample_crypto None (Some '''') (Some ''K'') unbound_world)
             \<in> {Inl InvalidSigningKey, Inl InvalidVerifyingKey} \<and>
           snd (create sample_class sample_crypto None (Some '''') (Some ''K'') unbound_world)
             = unbound_world"
    using c9 [where vka = "Some []" and w = unbound_world,
              THEN conjunct2, THEN conjunct2, THEN conjunct2, THEN conjunct1]
    by (simp add: unbound_world_def)
  have e: "fst (create sample_class sample_crypto None (Some '''') (Some ''K'') unbound_world)
             \<noteq> Inl InvalidSigningKey"
    by (simp add: create_unfold Let_def unbound_world_def)
  have f: "create sample_class sample_crypto None (Some '''') (Some ''K'') unbound_world
             = (Inl InvalidVerifyingKey, unbound_world)"
    using d e by (cases "create sample_class sample_crypto None (Some '''') (Some ''K'') unbound_world") auto
  have falsy: "\<not> truthy (Some '''')" "\<not> truthy (signing_key (driver unbound_world))"
              "\<not> truthy (verifying_key (driver unbound_world))"
    by (simp_all add: unbound_world_def)
  have bound: "signing_key (driver bound_world) = Some ''SK''"
              "verifying_key (driver bound_world) = Some ''VK''"
    by (simp_all add: bound_world_def)
  have res: "resolve_with_precedence (Some []) (verifying_key (driver bound_world)) = Some ''VK''"
            "resolve_with_precedence (Some []) (signing_key (driver bound_world)) = Some ''SK''"
    by (simp_all add: resolve_with_precedence_def bound_world_def)
  have posted: "\<And>stx. last_posted (snd (push sample_class (to_dict stx) bound_world)) = Some stx"
    by (simp add: push_def forward_request_def sample_class_def Transport_class_def
          Transport_forward_request_def bound_world_def sample_heap_def sample_transport_def
          Transport_init_def NodePool_init_def NodePool_next_def last_posted_def Let_def
          to_dict_def split: outcome.splits)
  note c9b = c9 [where tc = sample_class and cr = sample_crypto and p = None
                   and vka = "Some []" and ska = "Some []" and w = bound_world
                   and prior = sample_prior and oa = "[''X'']" and bsk = "''SK''"
                   and bvk = "''VK''" and vk = "''VK''" and sk = "''SK''"]
  from c9b [THEN conjunct2, THEN conjunct2, THEN conjunct2, THEN conjunct2, THEN conjunct2,
            THEN conjunct2, THEN conjunct1] bound(1)
  obtain stx1 where
    t1: "transfer sample_class sample_crypto sample_prior [''X''] (Some []) bound_world
           = push sample_class (to_dict stx1) bound_world"
    and g1: "signatures stx1
               = replicate (length (outputs (body sample_prior)))
                   [sign_message sample_crypto ''SK''
                      (Transaction_transfer (to_inputs sample_prior) [''X''])]"
    by auto
  have signed_transfer:
    "map_option signatures
       (last_posted (snd (transfer sample_class sample_crypto sample_prior [''X''] (Some '''')
                            bound_world))) = Some [[''sig:SK'']]"
  proof -
    from g1 have "signatures stx1 = [[''sig:SK'']]"
      by (simp add: sample_prior_def sample_crypto_def)
    then show ?thesis
      by (simp add: t1 posted)
  qed
  from c9b [THEN conjunct2, THEN conjunct2, THEN conjunct2, THEN conjunct2, THEN conjunct2,
            THEN conjunct2, THEN conjunct2, THEN conjunct1] bound(1) res(1)
  obtain tx2 stx2 where
    t2: "create sample_class sample_crypto None (Some []) (Some []) bound_world
           = push sample_class (to_dict stx2) bound_world"
    and g2: "signatures stx2 = [[sign_message sample_crypto ''SK'' tx2]]"
    by auto
  have signed_create:
    "map_option signatures
       (last_posted (snd (create sample_class sample_crypto None (Some '''') (Some '''')
                            bound_world))) = Some [[''sig:SK'']]"
  proof -
    from g2 have "signatures stx2 = [[''sig:SK'']]"
      by (simp add: sample_crypto_def)
    then show ?thesis
      by (simp add: t2 posted)
  qed
  have prem3: "\<not> truthy (Some []) \<and> verifying_key (driver bound_world) = Some ''VK'' \<and>
               ''VK'' \<noteq> [] \<and>
               resolve_with_precedence (Some []) (signing_key (driver bound_world)) = Some ''SK''"
    using bound(2) res(2) by simp
  from c9b [THEN conjunct2, THEN conjunct2, THEN conjunct2, THEN conjunct2, THEN conjunct2,
            THEN conjunct2, THEN conjunct2, THEN conjunct2, THEN mp, OF prem3]
  obtain tx3 stx3 where
    t3: "create sample_class sample_crypto None (Some []) (Some []) bound_world
           = push sample_class (to_dict stx3) bound_world"
    and o3: "map owners_before (inputs tx3) = [[''VK'']]"
            "map owners_after (outputs tx3) = [[''VK'']]"
    and b3: "body stx3 = tx3"
    by (elim exE conjE)
  have owned_create:
    "map_option (map owners_before \<circ> inputs \<circ> body)
       (last_posted (snd (create sample_class sample_crypto None (Some '''') (Some '''')
                            bound_world))) = Some [[''VK'']]"
    "map_option (map owners_after \<circ> outputs \<circ> body)
       (last_posted (snd (create sample_class sample_crypto None (Some '''') (Some '''')
                            bound_world))) = Some [[''VK'']]"
    using o3 b3 by (simp_all add: t3 posted)
  from falsy a b c f bound signed_create owned_create signed_transfer show ?thesis
    by (intro conjI) simp_all
qed

subsection \<open>\<^verbatim>\<open>transfer\<close> and the verifying key\<close>





subsection \<open>Reading a transaction and its status\<close>

text \<open>
  Claim C7. \<^verbatim>\<open>retrieve(txid)\<close> is one call of \<^verbatim>\<open>forward_request\<close> with the method GET
  and the path \<^verbatim>\<open>/transactions/\<close> followed by \<open>txid\<close>, and \<^verbatim>\<open>status(txid)\<close> is one
  with the method GET and that path followed by \<^verbatim>\<open>/status\<close>; each returns what the
  transport object of the driver returns for that call.
\<close>

theorem retrieve_and_status_get_by_id:
  "retrieve tc txid w = forward_request tc GET (''/transactions/'' @ txid) None w \<and>
   status tc txid w = forward_request tc GET (''/transactions/'' @ txid @ ''/status'') None w \<and>
   fst (retrieve tc txid w)
     = fst (tc_forward_request tc GET (''/transactions/'' @ txid) None
              (cells (heap w) (transport (driver w)))) \<and>
   fst (status tc txid w)
     = fst (tc_forward_request tc GET (''/transactions/'' @ txid @ ''/status'') None
              (cells (heap w) (transport (driver w))))"
proof -
  have call: "\<And>p. fst (forward_request tc GET p None w)
                  = fst (tc_forward_request tc GET p None (cells (heap w) (transport (driver w))))"
    by (simp add: forward_request_def Let_def split_def)
  have r: "retrieve tc txid w = forward_request tc GET (''/transactions/'' @ txid) None w"
    by (simp add: retrieve_def path_def)
  have s: "status tc txid w
             = forward_request tc GET (''/transactions/'' @ txid @ ''/status'') None w"
    by (simp add: status_def path_def)
  show ?thesis
    by (simp add: r s call)
qed

subsection \<open>The bound state of the driver\<close>

text \<open>
  Claim C8. The attributes of the driver (\<^verbatim>\<open>verifying_key\<close>, \<^verbatim>\<open>signing_key\<close>,
  \<^verbatim>\<open>transport\<close> and \<^verbatim>\<open>nodes\<close>) are the same after \<^verbatim>\<open>create\<close>, \<^verbatim>\<open>transfer\<close>,
  \<^verbatim>\<open>retrieve\<close> and \<^verbatim>\<open>status\<close> as before, whatever keys are given to the call and
  whatever the transport does. A successful construction sets them from its
  arguments and from the transport object it allocates, and they stay so under the
  four operations.
\<close>

theorem bound_state_unchanged_by_operations:
  "driver (snd (create tc cr p vka ska w)) = driver w \<and>
   driver (snd (transfer tc cr prior oa ska w)) = driver w \<and>
   driver (snd (retrieve tc txid w)) = driver w \<and>
   driver (snd (status tc txid w)) = driver w \<and>
   (BigchainDB_init tc ns vk0 sk0 h = (Inr d, h') \<longrightarrow>
      verifying_key d = str_attr vk0 \<and> signing_key d = str_attr sk0 \<and>
      transport d = next_ref h \<and> cells h' (transport d) = tc_init tc ns \<and>
      nodes d = tc_nodes tc (tc_init tc ns) \<and>
      driver (snd (create tc cr p vka ska \<lparr>driver = d, heap = h'\<rparr>)) = d \<and>
      driver (snd (transfer tc cr prior oa ska \<lparr>driver = d, heap = h'\<rparr>)) = d \<and>
      driver (snd (retrieve tc txid \<lparr>driver = d, heap = h'\<rparr>)) = d \<and>
      driver (snd (status tc txid \<lparr>driver = d, heap = h'\<rparr>)) = d)"
proof -
  have c: "\<And>w. driver (snd (create tc cr p vka ska w)) = driver w"
    by (simp add: create_unfold Let_def driver_forward_request)
  have t: "\<And>w. driver (snd (transfer tc cr prior oa ska w)) = driver w"
    by (simp add: transfer_unfold Let_def driver_forward_request)
  have r: "\<And>w. driver (snd (retrieve tc txid w)) = driver w"
    by (simp add: retrieve_def driver_forward_request)
  have s: "\<And>w. driver (snd (status tc txid w)) = driver w"
    by (simp add: status_def driver_forward_request)
  have i: "BigchainDB_init tc ns vk0 sk0 h = (Inr d, h') \<longrightarrow>
      verifying_key d = str_attr vk0 \<and> signing_key d = str_attr sk0 \<and>
      transport d = next_ref h \<and> cells h' (transport d) = tc_init tc ns \<and>
      nodes d = tc_nodes tc (tc_init tc ns)"
    by (auto simp: BigchainDB_init_def new_object_def Let_def split: if_splits)
  show ?thesis
    using i by (auto simp add: c t r s)
qed

theorem bound_state_unchanged_witness:
  "BigchainDB_init sample_class [''http://a'', ''http://b''] (PyStr ''VK'') (PyStr ''SK'')
     sample_heap
     = (Inr (driver bound_world), heap bound_world) \<and>
   driver (snd (create sample_class sample_crypto None (Some ''V2'') (Some ''S2'') bound_world))
     = driver bound_world \<and>
   verifying_key (driver (snd (create sample_class sample_crypto None (Some ''V2'') (Some ''S2'')
                                bound_world))) = Some ''VK'' \<and>
   nodes (driver (snd (retrieve sample_class ''abc'' bound_world))) = [''http://a'', ''http://b'']"
proof -
  have init: "BigchainDB_init sample_class [''http://a'', ''http://b''] (PyStr ''VK'')
                (PyStr ''SK'') sample_heap = (Inr (driver bound_world), heap bound_world)"
    by (simp add: BigchainDB_init_def new_object_def sample_class_def Transport_class_def
          sample_heap_def sample_transport_def bound_world_def Transport_nodes_def
          Transport_init_def NodePool_init_def fun_eq_iff)
  have w: "\<lparr>driver = driver bound_world, heap = heap bound_world\<rparr> = bound_world"
    by simp
  from bound_state_unchanged_by_operations
         [where tc = sample_class and cr = sample_crypto and p = None and vka = "Some ''V2''"
            and ska = "Some ''S2''" and txid = "''abc''" and h = sample_heap
            and ns = "[''http://a'', ''http://b'']" and ?vk0.0 = "PyStr ''VK''"
            and ?sk0.0 = "PyStr ''SK''" and d = "driver bound_world" and h' = "heap bound_world",
          THEN conjunct2, THEN conjunct2, THEN conjunct2, THEN conjunct2, rule_format, OF init]
  have "driver (snd (create sample_class sample_crypto None (Some ''V2'') (Some ''S2'')
                       bound_world)) = driver bound_world"
    and "driver (snd (retrieve sample_class ''abc'' bound_world)) = driver bound_world"
    and "verifying_key (driver bound_world) = str_attr (PyStr ''VK'')"
    unfolding w by simp_all
  then show ?thesis
    using init by (simp add: bound_world_def)
qed

subsection \<open>Attempts per call\<close>

text \<open>
  Claim C2, for the transport of the specification. The push of a mutating call issues
  exactly one request, whatever the network answers, and an unreachable node is
  surfaced as a transport error naming that node; \<^verbatim>\<open>create\<close> and \<^verbatim>\<open>transfer\<close> issue
  at most one request: exactly one when their keys resolve, also when that one node is
  unreachable (the call then fails with the transport error of that node), and none
  when a key does not resolve. \<^verbatim>\<open>retrieve\<close> and \<^verbatim>\<open>status\<close> issue at least one request and at
  most as many as the attempt ceiling of the transport (one when the ceiling is zero).
  When the ceiling is at least two, the first node is unreachable and the node the pool
  hands out next answers, they return that answer after two requests.
\<close>

theorem mutating_calls_one_attempt_reads_may_retry:
  "sent_count (snd (push (Transport_class send c) js w)) = Suc (sent_count w) \<and>
   (send (wire (driver_transport w)) (POST, first_node (driver_transport w) @ path, Some js)
      = Unreachable \<longrightarrow>
    fst (push (Transport_class send c) js w)
      = Inl (TransportError (first_node (driver_transport w)))) \<and>
   sent_count (snd (create (Transport_class send c) cr p vka ska w)) \<le> Suc (sent_count w) \<and>
   sent_count (snd (transfer (Transport_class send c) cr prior oa ska w)) \<le> Suc (sent_count w) \<and>
   sent_count w < sent_count (snd (retrieve (Transport_class send c) txid w)) \<and>
   sent_count (snd (retrieve (Transport_class send c) txid w))
     \<le> sent_count w + max 1 (attempt_ceiling (driver_transport w)) \<and>
   sent_count w < sent_count (snd (status (Transport_class send c) txid w)) \<and>
   sent_count (snd (status (Transport_class send c) txid w))
     \<le> sent_count w + max 1 (attempt_ceiling (driver_transport w)) \<and>
   (2 \<le> attempt_ceiling (driver_transport w) \<and>
    send (wire (driver_transport w))
      (GET, first_node (driver_transport w) @ path @ txid, None) = Unreachable \<and>
    send (wire (driver_transport w) @ [(GET, first_node (driver_transport w) @ path @ txid, None)])
      (GET, second_node (driver_transport w) @ path @ txid, None) = Success b \<longrightarrow>
    fst (retrieve (Transport_class send c) txid w) = Inr b \<and>
    sent_count (snd (retrieve (Transport_class send c) txid w)) = sent_count w + 2) \<and>
   (2 \<le> attempt_ceiling (driver_transport w) \<and>
    send (wire (driver_transport w))
      (GET, first_node (driver_transport w) @ path @ txid @ ''/status'', None) = Unreachable \<and>
    send (wire (driver_transport w)
            @ [(GET, first_node (driver_transport w) @ path @ txid @ ''/status'', None)])
      (GET, second_node (driver_transport w) @ path @ txid @ ''/status'', None) = Success b' \<longrightarrow>
    fst (status (Transport_class send c) txid w) = Inr b' \<and>
    sent_count (snd (status (Transport_class send c) txid w)) = sent_count w + 2) \<and>
   (resolve_with_precedence ska (signing_key (driver w)) \<noteq> None \<and>
    resolve_with_precedence vka (verifying_key (driver w)) \<noteq> None \<longrightarrow>
    sent_count (snd (create (Transport_class send c) cr p vka ska w)) = Suc (sent_count w)) \<and>
   (resolve_with_precedence ska (signing_key (driver w)) \<noteq> None \<longrightarrow>
    sent_count (snd (transfer (Transport_class send c) cr prior oa ska w))
      = Suc (sent_count w)) \<and>
   (resolve_with_precedence ska (signing_key (driver w)) \<noteq> None \<and>
    resolve_with_precedence vka (verifying_key (driver w)) \<noteq> None \<and>
    (\<forall>body. send (wire (driver_transport w))
              (POST, first_node (driver_transport w) @ path, body) = Unreachable) \<longrightarrow>
    fst (create (Transport_class send c) cr p vka ska w)
      = Inl (TransportError (first_node (driver_transport w)))) \<and>
   (resolve_with_precedence ska (signing_key (driver w)) \<noteq> None \<and>
    (\<forall>body. send (wire (driver_transport w))
              (POST, first_node (driver_transport w) @ path, body) = Unreachable) \<longrightarrow>
    fst (transfer (Transport_class send c) cr prior oa ska w)
      = Inl (TransportError (first_node (driver_transport w)))) \<and>
   (resolve_with_precedence ska (signing_key (driver w)) = None \<or>
    resolve_with_precedence vka (verifying_key (driver w)) = None \<longrightarrow>
    sent_count (snd (create (Transport_class send c) cr p vka ska w)) = sent_count w) \<and>
   (resolve_with_precedence ska (signing_key (driver w)) = None \<longrightarrow>
    sent_count (snd (transfer (Transport_class send c) cr prior oa ska w)) = sent_count w)"
proof (intro conjI impI)
  show "sent_count (snd (push (Transport_class send c) js w)) = Suc (sent_count w)"
    by (simp add: push_def post_once)
  show "sent_count (snd (create (Transport_class send c) cr p vka ska w)) = Suc (sent_count w)"
    if "resolve_with_precedence ska (signing_key (driver w)) \<noteq> None \<and>
        resolve_with_precedence vka (verifying_key (driver w)) \<noteq> None"
    using that by (intro create_sends_once(1)) simp_all
  show "sent_count (snd (transfer (Transport_class send c) cr prior oa ska w))
          = Suc (sent_count w)"
    if "resolve_with_precedence ska (signing_key (driver w)) \<noteq> None"
    using that by (rule transfer_sends_once(1))
  show "fst (create (Transport_class send c) cr p vka ska w)
          = Inl (TransportError (first_node (driver_transport w)))"
    if "resolve_with_precedence ska (signing_key (driver w)) \<noteq> None \<and>
        resolve_with_precedence vka (verifying_key (driver w)) \<noteq> None \<and>
        (\<forall>body. send (wire (driver_transport w))
                  (POST, first_node (driver_transport w) @ path, body) = Unreachable)"
    using that by (intro create_sends_once(2)) simp_all
  show "fst (transfer (Transport_class send c) cr prior oa ska w)
          = Inl (TransportError (first_node (driver_transport w)))"
    if "resolve_with_precedence ska (signing_key (driver w)) \<noteq> None \<and>
        (\<forall>body. send (wire (driver_transport w))
                  (POST, first_node (driver_transport w) @ path, body) = Unreachable)"
    using that by (intro transfer_sends_once(2)) simp_all
  show "sent_count (snd (create (Transport_class send c) cr p vka ska w)) = sent_count w"
    if "resolve_with_precedence ska (signing_key (driver w)) = None \<or>
        resolve_with_precedence vka (verifying_key (driver w)) = None"
    using that by (rule unresolved_sends_nothing(1))
  show "sent_count (snd (transfer (Transport_class send c) cr prior oa ska w)) = sent_count w"
    if "resolve_with_precedence ska (signing_key (driver w)) = None"
    using that by (rule unresolved_sends_nothing(2))
  show "fst (push (Transport_class send c) js w)
          = Inl (TransportError (first_node (driver_transport w)))"
    if "send (wire (driver_transport w)) (POST, first_node (driver_transport w) @ path, Some js)
          = Unreachable"
    using that attempt_once [of send POST path "Some js" "driver_transport w"]
    by (simp add: push_def fst_forward_request del: attempt.simps)
  show "sent_count (snd (create (Transport_class send c) cr p vka ska w)) \<le> Suc (sent_count w)"
    by (simp add: create_unfold Let_def post_once)
  show "sent_count (snd (transfer (Transport_class send c) cr prior oa ska w))
          \<le> Suc (sent_count w)"
    by (simp add: transfer_unfold Let_def post_once)
  show "sent_count w < sent_count (snd (retrieve (Transport_class send c) txid w))"
    using get_bounded by (simp add: retrieve_def)
  show "sent_count (snd (retrieve (Transport_class send c) txid w))
          \<le> sent_count w + max 1 (attempt_ceiling (driver_transport w))"
    using get_bounded by (simp add: retrieve_def)
  show "sent_count w < sent_count (snd (status (Transport_class send c) txid w))"
    using get_bounded by (simp add: status_def)
  show "sent_count (snd (status (Transport_class send c) txid w))
          \<le> sent_count w + max 1 (attempt_ceiling (driver_transport w))"
    using get_bounded by (simp add: status_def)
next
  assume a: "2 \<le> attempt_ceiling (driver_transport w) \<and>
    send (wire (driver_transport w))
      (GET, first_node (driver_transport w) @ path @ txid, None) = Unreachable \<and>
    send (wire (driver_transport w) @ [(GET, first_node (driver_transport w) @ path @ txid, None)])
      (GET, second_node (driver_transport w) @ path @ txid, None) = Success b"
  then have r: "fst (forward_request (Transport_class send c) GET (path @ txid) None w) = Inr b \<and>
         sent_count (snd (forward_request (Transport_class send c) GET (path @ txid) None w))
           = sent_count w + 2"
    by (intro get_fail_then_success) simp_all
  from r show "fst (retrieve (Transport_class send c) txid w) = Inr b"
    by (simp add: retrieve_def)
  from r show "sent_count (snd (retrieve (Transport_class send c) txid w)) = sent_count w + 2"
    by (simp add: retrieve_def)
next
  assume a: "2 \<le> attempt_ceiling (driver_transport w) \<and>
    send (wire (driver_transport w))
      (GET, first_node (driver_transport w) @ path @ txid @ ''/status'', None) = Unreachable \<and>
    send (wire (driver_transport w)
            @ [(GET, first_node (driver_transport w) @ path @ txid @ ''/status'', None)])
      (GET, second_node (driver_transport w) @ path @ txid @ ''/status'', None) = Success b'"
  then have r: "fst (forward_request (Transport_class send c) GET (path @ txid @ ''/status'') None w)
           = Inr b' \<and>
         sent_count (snd (forward_request (Transport_class send c) GET
                            (path @ txid @ ''/status'') None w))
           = sent_count w + 2"
    by (intro get_fail_then_success) simp_all
  from r show "fst (status (Transport_class send c) txid w) = Inr b'"
    by (simp add: status_def)
  from r show "sent_count (snd (status (Transport_class send c) txid w)) = sent_count w + 2"
    by (simp add: status_def)
qed



theorem mutating_calls_one_attempt_witness:
  "2 \<le> attempt_ceiling (driver_transport bound_world) \<and>
   first_node (driver_transport bound_world) = ''http://a'' \<and>
   second_node (driver_transport bound_world) = ''http://b'' \<and>
   sample_send (wire (driver_transport bound_world)) (GET, ''http://a/transactions/abc'', None)
     = Unreachable \<and>
   sample_send (wire (driver_transport bound_world) @ [(GET, ''http://a/transactions/abc'', None)])
     (GET, ''http://b/transactions/abc'', None) = Success [(''status'', ''valid'')] \<and>
   fst (retrieve sample_class ''abc'' bound_world) = Inr [(''status'', ''valid'')] \<and>
   sent_count (snd (retrieve sample_class ''abc'' bound_world)) = 2 \<and>
   fst (status sample_class ''abc'' bound_world) = Inr [(''status'', ''valid'')] \<and>
   sample_send (wire (driver_transport bound_world))
     (POST, ''http://a/transactions/'', Some sample_prior) = Unreachable \<and>
   fst (push sample_class sample_prior bound_world) = Inl (TransportError ''http://a'') \<and>
   sent_count (snd (push sample_class sample_prior bound_world)) = 1 \<and>
   resolve_with_precedence None (signing_key (driver bound_world)) \<noteq> None \<and>
   resolve_with_precedence None (verifying_key (driver bound_world)) \<noteq> None \<and>
   fst (create sample_class sample_crypto None None None bound_world)
     = Inl (TransportError ''http://a'') \<and>
   sent_count (snd (create sample_class sample_crypto None None None bound_world)) = 1 \<and>
   fst (transfer sample_class sample_crypto sample_prior [''X''] None bound_world)
     = Inl (TransportError ''http://a'') \<and>
   sent_count (snd (transfer sample_class sample_crypto sample_prior [''X''] None bound_world)) = 1 \<and>
   resolve_with_precedence None (signing_key (driver unbound_world)) = None \<and>
   sent_count (snd (create sample_class sample_crypto None None None unbound_world)) = 0 \<and>
   sent_count (snd (transfer sample_class sample_crypto sample_prior [''X''] None unbound_world)) = 0"
proof -
  note c2 = mutating_calls_one_attempt_reads_may_retry
              [where send = sample_send and c = 2 and w = bound_world and txid = "''abc''"
                 and js = sample_prior and b = "[(''status'', ''valid'')]"
                 and b' = "[(''status'', ''valid'')]" and cr = sample_crypto and p = None
                 and vka = None and ska = None and prior = sample_prior and oa = "[''X'']",
               folded sample_class_def]
  note c2u = mutating_calls_one_attempt_reads_may_retry
              [where send = sample_send and c = 2 and w = unbound_world and cr = sample_crypto
                 and p = None and vka = None and ska = None and prior = sample_prior
                 and oa = "[''X'']", folded sample_class_def]
  have t: "driver_transport bound_world
             = \<lparr>pool = \<lparr>pool_nodes = [''http://a'', ''http://b''], cursor = 0\<rparr>,
                attempt_ceiling = 2, wire = []\<rparr>"
    by (simp add: driver_transport_def bound_world_def sample_heap_def sample_transport_def
          Transport_init_def NodePool_init_def)
  have n: "first_node (driver_transport bound_world) = ''http://a''"
          "second_node (driver_transport bound_world) = ''http://b''"
    by (simp_all add: t first_node_def second_node_def NodePool_next_def)
  have s0: "sent_count bound_world = 0" "sent_count unbound_world = 0"
    by (simp_all add: sent_count_def bound_world_def unbound_world_def sample_heap_def
          sample_transport_def Transport_init_def)
  have pre: "2 \<le> attempt_ceiling (driver_transport bound_world)"
    "sample_send (wire (driver_transport bound_world)) (GET, ''http://a/transactions/abc'', None)
       = Unreachable"
    "sample_send (wire (driver_transport bound_world) @ [(GET, ''http://a/transactions/abc'', None)])
       (GET, ''http://b/transactions/abc'', None) = Success [(''status'', ''valid'')]"
    "sample_send (wire (driver_transport bound_world))
       (GET, ''http://a/transactions/abc/status'', None) = Unreachable"
    "sample_send (wire (driver_transport bound_world)
                    @ [(GET, ''http://a/transactions/abc/status'', None)])
       (GET, ''http://b/transactions/abc/status'', None) = Success [(''status'', ''valid'')]"
    "sample_send (wire (driver_transport bound_world))
       (POST, ''http://a/transactions/'', Some sample_prior) = Unreachable"
    by (simp_all add: t sample_send_def)
  have down: "\<forall>body. sample_send (wire (driver_transport bound_world))
                       (POST, ''http://a/transactions/'', body) = Unreachable"
    by (simp add: t sample_send_def)
  have keys: "resolve_with_precedence None (signing_key (driver bound_world)) \<noteq> None"
             "resolve_with_precedence None (verifying_key (driver bound_world)) \<noteq> None"
             "resolve_with_precedence None (signing_key (driver unbound_world)) = None"
    by (simp_all add: resolve_with_precedence_def bound_world_def unbound_world_def)
  have reads_and_push:
    "fst (retrieve sample_class ''abc'' bound_world) = Inr [(''status'', ''valid'')] \<and>
     sent_count (snd (retrieve sample_class ''abc'' bound_world)) = 2 \<and>
     fst (status sample_class ''abc'' bound_world) = Inr [(''status'', ''valid'')] \<and>
     fst (push sample_class sample_prior bound_world) = Inl (TransportError ''http://a'') \<and>
     sent_count (snd (push sample_class sample_prior bound_world)) = 1"
    using c2 pre n s0 by (simp add: path_def)
  have writes:
    "fst (create sample_class sample_crypto None None None bound_world)
       = Inl (TransportError ''http://a'') \<and>
     sent_count (snd (create sample_class sample_crypto None None None bound_world)) = 1 \<and>
     fst (transfer sample_class sample_crypto sample_prior [''X''] None bound_world)
       = Inl (TransportError ''http://a'') \<and>
     sent_count (snd (transfer sample_class sample_crypto sample_prior [''X''] None bound_world))
       = 1"
    using c2 keys(1,2) down n s0 by (simp add: path_def)
  have unresolved:
    "sent_count (snd (create sample_class sample_crypto None None None unbound_world)) = 0 \<and>
     sent_count (snd (transfer sample_class sample_crypto sample_prior [''X''] None
                        unbound_world)) = 0"
    using c2u keys(3) s0 by simp
  from pre(1,2,3,6) n keys reads_and_push writes unresolved show ?thesis
    by simp
qed

subsection \<open>Key checks of the constructor\<close>

text \<open>
  Claim C5. The constructor raises \<^verbatim>\<open>InvalidVerifyingKey\<close> when a string is given as
  signing key and no verifying key is given, and when the verifying key is neither
  \<^verbatim>\<open>None\<close> nor a string; it raises \<^verbatim>\<open>InvalidSigningKey\<close> when the signing key is
  neither \<^verbatim>\<open>None\<close> nor a string and the verifying key passes its own check. Whenever
  a key argument is invalid in one of these ways, the constructor raises one of the two
  errors and the store is returned as it was: no transport object has been constructed,
  so no request can have been issued.
\<close>

theorem init_rejects_invalid_keys_before_transport:
  "(isinstance_str sk0 \<and> vk0 = PyNone \<longrightarrow>
      BigchainDB_init tc ns vk0 sk0 h = (Inl InvalidVerifyingKey, h)) \<and>
   (vk0 \<noteq> PyNone \<and> \<not> isinstance_str vk0 \<longrightarrow>
      BigchainDB_init tc ns vk0 sk0 h = (Inl InvalidVerifyingKey, h)) \<and>
   (sk0 \<noteq> PyNone \<and> \<not> isinstance_str sk0 \<and> (vk0 = PyNone \<or> isinstance_str vk0) \<longrightarrow>
      BigchainDB_init tc ns vk0 sk0 h = (Inl InvalidSigningKey, h)) \<and>
   ((vk0 \<noteq> PyNone \<and> \<not> isinstance_str vk0) \<or> (sk0 \<noteq> PyNone \<and> \<not> isinstance_str sk0) \<or>
    (sk0 \<noteq> PyNone \<and> vk0 = PyNone) \<longrightarrow>
      (BigchainDB_init tc ns vk0 sk0 h = (Inl InvalidVerifyingKey, h) \<or>
       BigchainDB_init tc ns vk0 sk0 h = (Inl InvalidSigningKey, h)))"
proof (intro conjI impI)
  assume a: "isinstance_str sk0 \<and> vk0 = PyNone"
  then have "sk0 \<noteq> PyNone" by auto
  with a show "BigchainDB_init tc ns vk0 sk0 h = (Inl InvalidVerifyingKey, h)"
    by (simp add: BigchainDB_init_def)
next
  assume "vk0 \<noteq> PyNone \<and> \<not> isinstance_str vk0"
  then show "BigchainDB_init tc ns vk0 sk0 h = (Inl InvalidVerifyingKey, h)"
    by (simp add: BigchainDB_init_def)
next
  assume "sk0 \<noteq> PyNone \<and> \<not> isinstance_str sk0 \<and> (vk0 = PyNone \<or> isinstance_str vk0)"
  then show "BigchainDB_init tc ns vk0 sk0 h = (Inl InvalidSigningKey, h)"
    by (auto simp: BigchainDB_init_def)
next
  assume "(vk0 \<noteq> PyNone \<and> \<not> isinstance_str vk0) \<or> (sk0 \<noteq> PyNone \<and> \<not> isinstance_str sk0) \<or>
          (sk0 \<noteq> PyNone \<and> vk0 = PyNone)"
  then show "BigchainDB_init tc ns vk0 sk0 h = (Inl InvalidVerifyingKey, h) \<or>
             BigchainDB_init tc ns vk0 sk0 h = (Inl InvalidSigningKey, h)"
    by (auto simp: BigchainDB_init_def)
qed

theorem init_rejects_invalid_keys_witness:
  "isinstance_str (PyStr ''abc'') \<and>
   BigchainDB_init sample_class [] PyNone (PyStr ''abc'') sample_heap
     = (Inl InvalidVerifyingKey, sample_heap) \<and>
   PyInt 5 \<noteq> PyNone \<and> \<not> isinstance_str (PyInt 5) \<and>
   BigchainDB_init sample_class [] (PyInt 5) PyNone sample_heap
     = (Inl InvalidVerifyingKey, sample_heap) \<and>
   isinstance_str (PyStr ''VK'') \<and>
   BigchainDB_init sample_class [] (PyStr ''VK'') (PyInt 5) sample_heap
     = (Inl InvalidSigningKey, sample_heap) \<and>
   BigchainDB_init sample_class [] PyNone (PyBytes [1, 2]) sample_heap
     = (Inl InvalidSigningKey, sample_heap) \<and>
   (BigchainDB_init sample_class [] (PyBool True) (PyInt 5) sample_heap
      = (Inl InvalidVerifyingKey, sample_heap) \<or>
    BigchainDB_init sample_class [] (PyBool True) (PyInt 5) sample_heap
      = (Inl InvalidSigningKey, sample_heap))"
  using init_rejects_invalid_keys_before_transport
          [where ?sk0.0 = "PyStr ''abc''" and ?vk0.0 = PyNone and tc = sample_class and ns = "[]"
             and h = sample_heap]
        init_rejects_invalid_keys_before_transport
          [where ?sk0.0 = PyNone and ?vk0.0 = "PyInt 5" and tc = sample_class and ns = "[]"
             and h = sample_heap]
        init_rejects_invalid_keys_before_transport
          [where ?sk0.0 = "PyInt 5" and ?vk0.0 = "PyStr ''VK''" and tc = sample_class and ns = "[]"
             and h = sample_heap]
        init_rejects_invalid_keys_before_transport
          [where ?sk0.0 = "PyBytes [1, 2]" and ?vk0.0 = PyNone and tc = sample_class and ns = "[]"
             and h = sample_heap]
        init_rejects_invalid_keys_before_transport
          [where ?sk0.0 = "PyInt 5" and ?vk0.0 = "PyBool True" and tc = sample_class and ns = "[]"
             and h = sample_heap]
  by simp

end
